theory Spec2Isabelle
  imports Main "HOL-Library.AList"
begin

section \<open>The WhatsApp dashboard server (src/server.js): data model\<close>

text \<open>
  The model follows the last and most complete version of the server in
  \<^verbatim>\<open>src/server.js\<close> (the one that defines \<^verbatim>\<open>createWhatsAppClient\<close> with a
  \<^verbatim>\<open>sock.store\<close>, the handlers \<^verbatim>\<open>messages.upsert\<close>, \<^verbatim>\<open>messages.update\<close>, and the commands
  \<^verbatim>\<open>generateQR\<close>, \<^verbatim>\<open>reconnectSession\<close>, \<^verbatim>\<open>getChats\<close>, \<^verbatim>\<open>getChatMessages\<close>, \<^verbatim>\<open>logout\<close>).
  The older copy \<^verbatim>\<open>src/backup4_server.js\<close> is modelled only where it differs on a
  property stated below.

  JavaScript objects used as dictionaries and the \<^verbatim>\<open>Map\<close> of chats are association
  lists: \<^verbatim>\<open>m.set(k, v)\<close> and \<^verbatim>\<open>o[k] = v\<close> are \<^const>\<open>AList.update\<close> (replace in place,
  else append, which is the iteration order of a \<^verbatim>\<open>Map\<close>), \<^verbatim>\<open>delete o[k]\<close> is
  \<^const>\<open>AList.delete\<close>, a lookup is \<^const>\<open>map_of\<close>. Keys are assumed not to be names
  of \<^verbatim>\<open>Object.prototype\<close> members. Optional fields are \<open>option\<close> values; a JavaScript
  number is an \<open>int\<close> (counters and epoch seconds stay far below \<open>2^53\<close>).
\<close>

text \<open>
  The names every object inherits from \<^verbatim>\<open>Object.prototype\<close>. Looked up in an object used
  as a dictionary, such a key finds the inherited member and not an entry; the model's
  lookups do not cover these keys.
\<close>

definition prototype_member :: "string \<Rightarrow> bool" where
  "prototype_member k \<longleftrightarrow>
     k \<in> set [''constructor'', ''__proto__'', ''hasOwnProperty'', ''isPrototypeOf'',
              ''propertyIsEnumerable'', ''toLocaleString'', ''toString'', ''valueOf'',
              ''__defineGetter__'', ''__defineSetter__'', ''__lookupGetter__'',
              ''__lookupSetter__'']"

record message =
  key_id :: string
  key_remoteJid :: string
  key_fromMe :: bool
  messageTimestamp :: "int option"
  m_conversation :: "string option"
  m_extendedText :: "string option"

record chat =
  chat_id :: string
  chat_name :: "string option"
  chat_subject :: "string option"
  conversationTimestamp :: "int option"
  unreadCount :: "int option"

record contact =
  contact_id :: string
  contact_name :: "string option"
  contact_notify :: "string option"

text \<open>\<^verbatim>\<open>sock.store = { chats: new Map(), contacts: {}, messages: {} }\<close>\<close>

record store =
  chats :: "(string \<times> chat) list"
  contacts :: "(string \<times> contact) list"
  messages :: "(string \<times> message list) list"

definition empty_store :: store where
  "empty_store = \<lparr>chats = [], contacts = [], messages = []\<rparr>"

definition broadcast :: string where
  "broadcast = ''status@broadcast''"

text \<open>\<^verbatim>\<open>sock.store.messages[jid].all()\<close>, with no entry read as the empty sequence.\<close>

definition messages_of :: "store \<Rightarrow> string \<Rightarrow> message list" where
  "messages_of s j = (case map_of (messages s) j of None \<Rightarrow> [] | Some ms \<Rightarrow> ms)"

text \<open>\<^verbatim>\<open>chat.unreadCount || 0\<close>: an absent counter reads as 0.\<close>

definition unread_or_0 :: "chat \<Rightarrow> int" where
  "unread_or_0 c = (case unreadCount c of None \<Rightarrow> 0 | Some n \<Rightarrow> n)"

section \<open>Event handlers on the store\<close>

text \<open>
  The body of the loop of the \<^verbatim>\<open>messages.upsert\<close> handler, for one message:
  \<^verbatim>\<open>
  const jid = msg.key.remoteJid;
  if (jid === 'status@broadcast') continue;
  if (!sock.store.messages[jid]) { sock.store.messages[jid] = { messages: [], ... }; }
  const exists = sock.store.messages[jid].messages.some(
    existingMsg => existingMsg.key.id === msg.key.id);
  if (!exists) {
    sock.store.messages[jid].messages.push(msg);
    if (!sock.store.chats.has(jid)) {
      sock.store.chats.set(jid, { id: jid, conversationTimestamp: msg.messageTimestamp,
                                  unreadCount: msg.key.fromMe ? 0 : 1 });
    } else {
      const chat = sock.store.chats.get(jid);
      chat.conversationTimestamp = msg.messageTimestamp;
      if (!msg.key.fromMe) { chat.unreadCount = (chat.unreadCount || 0) + 1; }
    }
  }
  \<close>
\<close>

definition ingest :: "message \<Rightarrow> store \<Rightarrow> store" where
  "ingest msg s =
     (let j = key_remoteJid msg in
      if j = broadcast then s
      else
        let s1 = (if map_of (messages s) j = None
                  then s\<lparr>messages := AList.update j [] (messages s)\<rparr> else s);
            ms = messages_of s1 j
        in if list_ex (\<lambda>existingMsg. key_id existingMsg = key_id msg) ms then s1
           else
             let s2 = s1\<lparr>messages := AList.update j (ms @ [msg]) (messages s1)\<rparr>
             in case map_of (chats s2) j of
                  None \<Rightarrow>
                    s2\<lparr>chats := AList.update j
                         \<lparr>chat_id = j, chat_name = None, chat_subject = None,
                          conversationTimestamp = messageTimestamp msg,
                          unreadCount = Some (if key_fromMe msg then 0 else 1)\<rparr>
                         (chats s2)\<rparr>
                | Some c \<Rightarrow>
                    s2\<lparr>chats := AList.update j
                         (c\<lparr>conversationTimestamp := messageTimestamp msg,
                            unreadCount := (if \<not> key_fromMe msg
                                            then Some (unread_or_0 c + 1)
                                            else unreadCount c)\<rparr>)
                         (chats s2)\<rparr>)"

text \<open>The event \<^verbatim>\<open>m\<close> of \<^verbatim>\<open>messages.upsert\<close>: \<^verbatim>\<open>m.type\<close> and \<^verbatim>\<open>m.messages\<close>.\<close>

record upsert =
  upsert_type :: string
  upsert_messages :: "message list"

definition messages_upsert_store :: "upsert \<Rightarrow> store \<Rightarrow> store" where
  "messages_upsert_store m s =
     (if upsert_type m = ''notify'' then fold ingest (upsert_messages m) s else s)"

text \<open>
  The same loop body in \<^verbatim>\<open>src/backup4_server.js\<close>: no broadcast skip, no duplicate
  check, and the counter grows for own messages too.
\<close>

definition ingest_backup4 :: "message \<Rightarrow> store \<Rightarrow> store" where
  "ingest_backup4 msg s =
     (let j = key_remoteJid msg;
          s1 = (if map_of (messages s) j = None
                then s\<lparr>messages := AList.update j [] (messages s)\<rparr> else s);
          s2 = s1\<lparr>messages := AList.update j (messages_of s1 j @ [msg]) (messages s1)\<rparr>
      in case map_of (chats s2) j of
           None \<Rightarrow>
             s2\<lparr>chats := AList.update j
                  \<lparr>chat_id = j, chat_name = None, chat_subject = None,
                   conversationTimestamp = messageTimestamp msg,
                   unreadCount = Some 1\<rparr> (chats s2)\<rparr>
         | Some c \<Rightarrow>
             s2\<lparr>chats := AList.update j
                  (c\<lparr>conversationTimestamp := messageTimestamp msg,
                     unreadCount := Some (unread_or_0 c + 1)\<rparr>) (chats s2)\<rparr>)"

text \<open>\<^verbatim>\<open>chats.set\<close> and \<^verbatim>\<open>chats.upsert\<close>: \<^verbatim>\<open>sock.store.chats.set(chat.id, chat)\<close> for each.\<close>

definition chats_set_store :: "chat list \<Rightarrow> store \<Rightarrow> store" where
  "chats_set_store cs s =
     s\<lparr>chats := fold (\<lambda>c al. AList.update (chat_id c) c al) cs (chats s)\<rparr>"

text \<open>
  \<^verbatim>\<open>contacts.update\<close>: create \<^verbatim>\<open>{ id }\<close> when absent, then \<^verbatim>\<open>Object.assign\<close>. A field
  of the update that is \<open>None\<close> is a field the update object does not have.
\<close>

definition merge_contact :: "contact \<Rightarrow> store \<Rightarrow> store" where
  "merge_contact u s =
     (let old = (case map_of (contacts s) (contact_id u) of
                   None \<Rightarrow> \<lparr>contact_id = contact_id u, contact_name = None, contact_notify = None\<rparr>
                 | Some c \<Rightarrow> c);
          new = old\<lparr>contact_id := contact_id u,
                    contact_name := (case contact_name u of None \<Rightarrow> contact_name old | Some n \<Rightarrow> Some n),
                    contact_notify := (case contact_notify u of None \<Rightarrow> contact_notify old | Some n \<Rightarrow> Some n)\<rparr>
      in s\<lparr>contacts := AList.update (contact_id u) new (contacts s)\<rparr>)"

definition contacts_update_store :: "contact list \<Rightarrow> store \<Rightarrow> store" where
  "contacts_update_store us s = fold merge_contact us s"

text \<open>
  \<^verbatim>\<open>if (sock.store.chats.has(jid)) { chat.unreadCount = 0; }\<close>, as written in the
  \<^verbatim>\<open>messages.update\<close> handler, in \<^verbatim>\<open>getChatMessages\<close> and in \<^verbatim>\<open>markChatAsRead\<close>.
\<close>

definition set_read :: "string \<Rightarrow> store \<Rightarrow> store" where
  "set_read j s =
     (case map_of (chats s) j of
        None \<Rightarrow> s
      | Some c \<Rightarrow> s\<lparr>chats := AList.update j (c\<lparr>unreadCount := Some 0\<rparr>) (chats s)\<rparr>)"

text \<open>One entry of \<^verbatim>\<open>messages.update\<close>: \<^verbatim>\<open>update.key.remoteJid\<close> and \<^verbatim>\<open>update.update.status\<close>.\<close>

record msg_update =
  upd_remoteJid :: string
  upd_status :: "string option"

definition is_read_update :: "store \<Rightarrow> msg_update \<Rightarrow> bool" where
  "is_read_update s u \<longleftrightarrow>
     upd_remoteJid u \<noteq> broadcast \<and> upd_status u = Some ''READ''
     \<and> map_of (chats s) (upd_remoteJid u) \<noteq> None"

definition read_update :: "msg_update \<Rightarrow> store \<Rightarrow> store" where
  "read_update u s = (if is_read_update s u then set_read (upd_remoteJid u) s else s)"

definition messages_update_store :: "msg_update list \<Rightarrow> store \<Rightarrow> store" where
  "messages_update_store us s = fold read_update us s"

text \<open>The unread counter a caller sees for a conversation (0 when there is no record).\<close>

definition unread_of :: "store \<Rightarrow> string \<Rightarrow> int" where
  "unread_of s j = (case map_of (chats s) j of None \<Rightarrow> 0 | Some c \<Rightarrow> unread_or_0 c)"

definition has_id :: "store \<Rightarrow> string \<Rightarrow> string \<Rightarrow> bool" where
  "has_id s j i \<longleftrightarrow> list_ex (\<lambda>e. key_id e = i) (messages_of s j)"

text \<open>No conversation holds two records with the same id.\<close>

definition unique_ids :: "store \<Rightarrow> bool" where
  "unique_ids s \<longleftrightarrow> list_all (\<lambda>(j, ms). distinct (map key_id ms)) (messages s)"

section \<open>Formatting helpers\<close>

text \<open>\<^verbatim>\<open>a || b\<close> on an optional string: \<^verbatim>\<open>undefined\<close> and \<^verbatim>\<open>''\<close> are falsy.\<close>

definition js_or :: "string option \<Rightarrow> string \<Rightarrow> string" where
  "js_or a b = (case a of None \<Rightarrow> b | Some x \<Rightarrow> if x = [] then b else x)"

text \<open>\<^verbatim>\<open>s.endsWith(suffix)\<close>\<close>

definition endsWith :: "string \<Rightarrow> string \<Rightarrow> bool" where
  "endsWith s suf \<longleftrightarrow> length suf \<le> length s \<and> drop (length s - length suf) s = suf"

text \<open>\<^verbatim>\<open>function formatPhoneNumber(jid) { if (!jid) return ''; return jid.split('@')[0]; }\<close>\<close>

definition formatPhoneNumber :: "string \<Rightarrow> string" where
  "formatPhoneNumber j = (if j = [] then [] else takeWhile (\<lambda>c. c \<noteq> CHR ''@'') j)"

text \<open>
  \<^verbatim>\<open>formatTime(new Date(ts * 1000))\<close> is \<^verbatim>\<open>date.toLocaleTimeString([], { hour: '2-digit',
  minute: '2-digit' })\<close>: what it prints depends on the locale and the time zone of the
  machine, so the functions below take it as a parameter \<open>tf\<close>, from epoch seconds to
  the printed string. \<open>hhmm\<close> is the instance the source's comment names
  (\<^verbatim>\<open>// Format time as HH:MM\<close>): 24-hour clock, time zone UTC.
\<close>

definition digit2 :: "int \<Rightarrow> string" where
  "digit2 n = [char_of (48 + n div 10 mod 10), char_of (48 + n mod 10)]"

definition hhmm :: "int \<Rightarrow> string" where
  "hhmm ts = digit2 (ts div 3600 mod 24) @ '':'' @ digit2 (ts div 60 mod 60)"

text \<open>\<^verbatim>\<open>if (msg.messageTimestamp) { time = formatTime(new Date(msg.messageTimestamp * 1000)); }\<close>\<close>

definition message_time :: "(int \<Rightarrow> string) \<Rightarrow> message \<Rightarrow> string" where
  "message_time tf msg =
     (case messageTimestamp msg of None \<Rightarrow> [] | Some t \<Rightarrow> if t = 0 then [] else tf t)"

text \<open>
  \<^verbatim>\<open>msg.message?.conversation || msg.message?.extendedTextMessage?.text || 'Media message'\<close>
\<close>

definition message_text :: "message \<Rightarrow> string" where
  "message_text msg = js_or (m_conversation msg) (js_or (m_extendedText msg) ''Media message'')"

text \<open>
  \<^verbatim>\<open>a.localeCompare(b)\<close> as the three-way comparison of the strings by character code.
  (The locale's collation agrees with it on strings of digits and a colon of the same
  length, which is what \<open>hhmm\<close> prints.)
\<close>

fun localeCompare :: "string \<Rightarrow> string \<Rightarrow> int" where
  "localeCompare [] [] = 0"
| "localeCompare [] (y # ys) = - 1"
| "localeCompare (x # xs) [] = 1"
| "localeCompare (x # xs) (y # ys) =
     (if (of_char x :: nat) < of_char y then - 1
      else if (of_char y :: nat) < of_char x then 1
      else localeCompare xs ys)"

text \<open>
  \<^verbatim>\<open>array.sort(compare)\<close>. ECMAScript (since 2019) fixes the result only when
  \<^verbatim>\<open>compare\<close> is a consistent comparator for the elements of the array: then the
  elements come out in the order of \<^verbatim>\<open>compare\<close>, equal ones in their former order.
  Otherwise the order is implementation-defined, and engines do differ. Both comparators
  of the server are inconsistent on some arrays (\<^verbatim>\<open>compare(a, a)\<close> is not 0 for a chat
  with no time, nor for a message with no timestamp), so the model keeps the two cases
  apart.

  \<open>consistent_comparator\<close> is the standard's condition on the elements: \<open>a = a\<close>;
  \<open>a = b\<close> gives \<open>b = a\<close>; and \<open>=\<close>, \<open><\<close> and \<open>>\<close> are transitive, where \<open>a < b\<close>
  stands for \<open>compare a b < 0\<close> and so on.
\<close>

definition comparator_transitive :: "('a \<Rightarrow> 'a \<Rightarrow> int) \<Rightarrow> 'a \<Rightarrow> 'a \<Rightarrow> 'a \<Rightarrow> bool" where
  "comparator_transitive cmp a b c \<longleftrightarrow>
     (if cmp a b = 0 \<and> cmp b c = 0 then cmp a c = 0 else True)
     \<and> (if cmp a b < 0 \<and> cmp b c < 0 then cmp a c < 0 else True)
     \<and> (if cmp a b > 0 \<and> cmp b c > 0 then cmp a c > 0 else True)"

definition consistent_comparator :: "('a \<Rightarrow> 'a \<Rightarrow> int) \<Rightarrow> 'a list \<Rightarrow> bool" where
  "consistent_comparator cmp xs \<longleftrightarrow>
     list_all (\<lambda>a. cmp a a = 0) xs
     \<and> list_all (\<lambda>a. list_all (\<lambda>b. if cmp a b = 0 then cmp b a = 0 else True) xs) xs
     \<and> list_all (\<lambda>a. list_all (\<lambda>b. list_all (\<lambda>c. comparator_transitive cmp a b c) xs) xs) xs"

text \<open>
  The result for a consistent comparator: the stable insertion sort, which puts \<open>x\<close>
  before the first \<open>y\<close> with \<open>compare x y \<le> 0\<close>.
\<close>

fun insert_by :: "('a \<Rightarrow> 'a \<Rightarrow> int) \<Rightarrow> 'a \<Rightarrow> 'a list \<Rightarrow> 'a list" where
  "insert_by cmp x [] = [x]"
| "insert_by cmp x (y # ys) = (if cmp x y \<le> 0 then x # y # ys else y # insert_by cmp x ys)"

definition stable_sort :: "('a \<Rightarrow> 'a \<Rightarrow> int) \<Rightarrow> 'a list \<Rightarrow> 'a list" where
  "stable_sort cmp xs = foldr (insert_by cmp) xs []"

text \<open>
  The result for an inconsistent comparator is some rearrangement of the array that the
  engine picks. The pick is a parameter \<open>eng\<close> of the model, a list of numbers:
  \<open>arrange eng xs\<close> takes as next element the one at position \<open>k mod length xs\<close> of what
  is left, for each \<open>k\<close> of \<open>eng\<close> in turn, and keeps the rest in place when \<open>eng\<close> runs
  out. Every \<open>eng\<close> gives a rearrangement, and every rearrangement comes from some
  \<open>eng\<close>.
\<close>

fun arrange :: "nat list \<Rightarrow> 'a list \<Rightarrow> 'a list" where
  "arrange [] xs = xs"
| "arrange (k # ks) [] = []"
| "arrange (k # ks) (x # xs) =
     (let i = k mod length (x # xs)
      in (x # xs) ! i # arrange ks (take i (x # xs) @ drop (Suc i) (x # xs)))"

definition js_sort :: "nat list \<Rightarrow> ('a \<Rightarrow> 'a \<Rightarrow> int) \<Rightarrow> 'a list \<Rightarrow> 'a list" where
  "js_sort eng cmp xs =
     (if consistent_comparator cmp xs then stable_sort cmp xs else arrange eng xs)"

section \<open>The chat list: \<^verbatim>\<open>getChats\<close>\<close>

text \<open>One entry of the answer: \<^verbatim>\<open>{ jid, name, lastMessage, time, unread }\<close>.\<close>

record chat_entry =
  c_jid :: string
  c_name :: string
  c_lastMessage :: string
  c_time :: string
  c_unread :: int

text \<open>
  \<^verbatim>\<open>
  let name = '';
  if (chat.name) { name = chat.name; }
  else if (chat.id.endsWith('@s.whatsapp.net')) {
    const contact = sock.store.contacts[chat.id];
    name = contact?.name || contact?.notify || formatPhoneNumber(chat.id);
  } else if (chat.id.endsWith('@g.us')) { name = chat.subject || 'Group'; }
  ...
  name: name || formatPhoneNumber(chat.id)
  \<close>
\<close>

definition contact_label :: "contact option \<Rightarrow> string \<Rightarrow> string" where
  "contact_label c dflt =
     (case c of None \<Rightarrow> dflt
      | Some k \<Rightarrow> js_or (contact_name k) (js_or (contact_notify k) dflt))"

definition chat_display_name :: "store \<Rightarrow> chat \<Rightarrow> string" where
  "chat_display_name s c =
     (let name =
        (if js_or (chat_name c) [] \<noteq> [] then js_or (chat_name c) []
         else if endsWith (chat_id c) ''@s.whatsapp.net''
           then contact_label (map_of (contacts s) (chat_id c)) (formatPhoneNumber (chat_id c))
         else if endsWith (chat_id c) ''@g.us'' then js_or (chat_subject c) ''Group''
         else [])
      in if name \<noteq> [] then name else formatPhoneNumber (chat_id c))"

text \<open>
  The callback of \<^verbatim>\<open>chats.map\<close>: \<^verbatim>\<open>null\<close> (here \<open>None\<close>) for the status broadcast, else
  the entry, with the text and the time of the last stored message when there is one.
\<close>

definition format_chat :: "(int \<Rightarrow> string) \<Rightarrow> store \<Rightarrow> chat \<Rightarrow> chat_entry option" where
  "format_chat tf s c =
     (if chat_id c = broadcast then None
      else
        let ms = messages_of s (chat_id c)
        in Some \<lparr>c_jid = chat_id c,
                 c_name = chat_display_name s c,
                 c_lastMessage = (if ms = [] then [] else message_text (last ms)),
                 c_time = (if ms = [] then [] else message_time tf (last ms)),
                 c_unread = unread_or_0 c\<rparr>)"

text \<open>
  \<^verbatim>\<open>
  filteredChats.sort((a, b) => {
    if (!a.time) return 1;
    if (!b.time) return -1;
    return b.time.localeCompare(a.time);
  });
  \<close>
\<close>

definition chat_compare :: "chat_entry \<Rightarrow> chat_entry \<Rightarrow> int" where
  "chat_compare a b =
     (if c_time a = [] then 1 else if c_time b = [] then - 1
      else localeCompare (c_time b) (c_time a))"

text \<open>
  \<^verbatim>\<open>Array.from(sock.store.chats.values())\<close>, mapped, the \<^verbatim>\<open>null\<close>s filtered out, sorted.
\<close>

definition list_chats :: "nat list \<Rightarrow> (int \<Rightarrow> string) \<Rightarrow> store \<Rightarrow> chat_entry list" where
  "list_chats eng tf s =
     js_sort eng chat_compare (List.map_filter (format_chat tf s) (map snd (chats s)))"

section \<open>The message list: \<^verbatim>\<open>getChatMessages\<close>\<close>

text \<open>One entry of the answer: \<^verbatim>\<open>{ id, fromMe, text, time, timestamp }\<close>.\<close>

record message_entry =
  f_id :: string
  f_fromMe :: bool
  f_text :: string
  f_time :: string
  f_timestamp :: "int option"

definition format_message :: "(int \<Rightarrow> string) \<Rightarrow> message \<Rightarrow> message_entry" where
  "format_message tf msg =
     \<lparr>f_id = key_id msg, f_fromMe = key_fromMe msg, f_text = message_text msg,
      f_time = message_time tf msg, f_timestamp = messageTimestamp msg\<rparr>"

text \<open>
  \<^verbatim>\<open>
  formattedMessages.sort((a, b) => {
    if (!a.timestamp) return -1;
    if (!b.timestamp) return 1;
    return a.timestamp - b.timestamp;
  });
  \<close>
\<close>

definition message_compare :: "message_entry \<Rightarrow> message_entry \<Rightarrow> int" where
  "message_compare a b =
     (case f_timestamp a of
        None \<Rightarrow> - 1
      | Some x \<Rightarrow>
          if x = 0 then - 1
          else (case f_timestamp b of
                  None \<Rightarrow> 1
                | Some y \<Rightarrow> if y = 0 then 1 else x - y))"

definition list_messages ::
  "nat list \<Rightarrow> (int \<Rightarrow> string) \<Rightarrow> message list \<Rightarrow> message_entry list" where
  "list_messages eng tf ms = js_sort eng message_compare (map (format_message tf) ms)"

section \<open>Sessions: the registry, the status table and the Protocol Clients\<close>

text \<open>What the server sends to the subscriber with \<^verbatim>\<open>socket.emit\<close>.\<close>

datatype notification =
    QrCode string string
  | Ready string
  | Disconnected string string
  | LoggedOut string
  | ErrorEvent string string
  | NewMessage string "message list"
  | ChatUpdate string string int
  | LogoutSuccess string
  | LogoutError string string

text \<open>
  A Protocol Client (\<^verbatim>\<open>sock\<close>, the value of \<^verbatim>\<open>makeWASocket\<close>): the session id its handlers
  close over, and its store.
\<close>

record sock =
  sock_session :: string
  sock_store :: store

text \<open>
  The state of the process. \<open>socks\<close> lists every Protocol Client constructed so far; a
  client is referred to by its index there, so that a client replaced in the registry
  keeps its store and its handlers, as the object does in the source. \<open>clients\<close> and
  \<open>sessionStatus\<close> are the two global tables, \<open>folders\<close> the directory
  \<^verbatim>\<open>sessions/\<close> (session id to the names of the files in its folder), \<open>emitted\<close>
  the notifications sent, \<open>timers\<close> the pending \<^verbatim>\<open>setTimeout\<close> calls (session id, delay
  in ms). An \<^verbatim>\<open>await\<close> is one step: the outcome of the awaited call is a parameter.
\<close>

record server =
  clients :: "(string \<times> nat) list"
  sessionStatus :: "(string \<times> string) list"
  socks :: "sock list"
  folders :: "(string \<times> string list) list"
  emitted :: "notification list"
  timers :: "(string \<times> nat) list"

definition initial :: server where
  "initial = \<lparr>clients = [], sessionStatus = [], socks = [], folders = [],
              emitted = [], timers = []\<rparr>"

text \<open>\<^verbatim>\<open>clients[sessionId]\<close>; a reference to no client reads as \<^verbatim>\<open>undefined\<close>.\<close>

definition client :: "server \<Rightarrow> string \<Rightarrow> nat option" where
  "client st sid =
     (case map_of (clients st) sid of
        None \<Rightarrow> None
      | Some r \<Rightarrow> if r < length (socks st) then Some r else None)"

definition store_at :: "server \<Rightarrow> nat \<Rightarrow> store" where
  "store_at st r = sock_store (socks st ! r)"

definition update_store :: "nat \<Rightarrow> (store \<Rightarrow> store) \<Rightarrow> server \<Rightarrow> server" where
  "update_store r f st =
     (if r < length (socks st)
      then st\<lparr>socks := (socks st)[r := (socks st ! r)\<lparr>sock_store := f (store_at st r)\<rparr>]\<rparr>
      else st)"

definition set_status :: "string \<Rightarrow> string \<Rightarrow> server \<Rightarrow> server" where
  "set_status sid v st = st\<lparr>sessionStatus := AList.update sid v (sessionStatus st)\<rparr>"

definition emit :: "notification \<Rightarrow> server \<Rightarrow> server" where
  "emit n st = st\<lparr>emitted := emitted st @ [n]\<rparr>"

definition delete_client :: "string \<Rightarrow> server \<Rightarrow> server" where
  "delete_client sid st = st\<lparr>clients := AList.delete sid (clients st)\<rparr>"

text \<open>
  \<^verbatim>\<open>
  function sessionExists(sessionId) {
    const sessionFolder = path.join(sessionsDir, sessionId);
    return fs.existsSync(sessionFolder) && fs.readdirSync(sessionFolder).length > 0;
  }
  \<close>
\<close>

definition sessionExists :: "server \<Rightarrow> string \<Rightarrow> bool" where
  "sessionExists st sid =
     (case map_of (folders st) sid of None \<Rightarrow> False | Some files \<Rightarrow> files \<noteq> [])"

text \<open>
  The outcome of the two external calls of \<^verbatim>\<open>createWhatsAppClient\<close>:
  \<^verbatim>\<open>useMultiFileAuthState\<close> throws, or \<^verbatim>\<open>makeWASocket\<close> throws, or both return.
  \<^verbatim>\<open>useMultiFileAuthState\<close> makes the session folder when there is none.
\<close>

datatype creation = AuthStateThrows string | MakeSocketThrows string | Created

definition ensure_folder :: "string \<Rightarrow> server \<Rightarrow> server" where
  "ensure_folder sid st =
     (if map_of (folders st) sid = None
      then st\<lparr>folders := AList.update sid [] (folders st)\<rparr> else st)"

text \<open>
  \<^verbatim>\<open>
  } catch (error) {
    sessionStatus[sessionId] = 'error';
    socket.emit('error', { sessionId, error: error.message });
    return null;
  }
  \<close>
\<close>

definition creation_failed :: "string \<Rightarrow> string \<Rightarrow> server \<Rightarrow> server" where
  "creation_failed sid e st = emit (ErrorEvent sid e) (set_status sid ''error'' st)"

text \<open>
  \<^verbatim>\<open>createWhatsAppClient(sessionId, socket)\<close>: on success
  \<^verbatim>\<open>sock.store = {...}; clients[sessionId] = sock; sessionStatus[sessionId] = 'connecting';\<close>
  and the handlers below are attached to the new client.
\<close>

definition createWhatsAppClient :: "string \<Rightarrow> creation \<Rightarrow> server \<Rightarrow> server" where
  "createWhatsAppClient sid oc st =
     (case oc of
        AuthStateThrows e \<Rightarrow> creation_failed sid e st
      | MakeSocketThrows e \<Rightarrow> creation_failed sid e (ensure_folder sid st)
      | Created \<Rightarrow>
          let st1 = ensure_folder sid st;
              r = length (socks st1)
          in set_status sid ''connecting''
               (st1\<lparr>socks := socks st1 @ [\<lparr>sock_session = sid, sock_store = empty_store\<rparr>],
                    clients := AList.update sid r (clients st1)\<rparr>))"

text \<open>
  The timer callback armed on a close that is not a logout:
  \<^verbatim>\<open>
  setTimeout(() => {
    if (sessionStatus[sessionId] === 'reconnecting') {
      delete clients[sessionId];
      createWhatsAppClient(sessionId, socket);
    }
  }, 5000);
  \<close>
\<close>

definition reconnect_timeout :: "string \<Rightarrow> creation \<Rightarrow> server \<Rightarrow> server" where
  "reconnect_timeout sid oc st =
     (if map_of (sessionStatus st) sid = Some ''reconnecting''
      then createWhatsAppClient sid oc (delete_client sid st)
      else st)"

text \<open>The timer \<open>(sid, 5000)\<close> fires: it leaves the pending timers and its callback runs.\<close>

definition timer_fires :: "string \<Rightarrow> creation \<Rightarrow> server \<Rightarrow> server" where
  "timer_fires sid oc st =
     (if (sid, 5000) \<in> set (timers st)
      then reconnect_timeout sid oc (st\<lparr>timers := remove1 (sid, 5000) (timers st)\<rparr>)
      else st)"

text \<open>
  The \<^verbatim>\<open>connection.update\<close> event as the handler reads it: \<^verbatim>\<open>connection\<close>,
  \<^verbatim>\<open>lastDisconnect?.error?.output?.statusCode\<close>, \<^verbatim>\<open>lastDisconnect?.error?.message\<close>, \<^verbatim>\<open>qr\<close>.
\<close>

record connection_update =
  cu_connection :: "string option"
  cu_statusCode :: "int option"
  cu_message :: "string option"
  cu_qr :: "string option"

text \<open>
  The \<^verbatim>\<open>connection.update\<close> handler of the client \<open>r\<close>. \<open>loggedOut\<close> is the library's
  constant \<^verbatim>\<open>DisconnectReason.loggedOut\<close>. On \<^verbatim>\<open>open\<close>, \<^verbatim>\<open>fs.writeFileSync\<close> writes
  \<^verbatim>\<open>connection_info.json\<close> into the session folder and throws when the folder is gone,
  which ends the handler; \<^verbatim>\<open>sock.fetchChats()\<close> is external and its failure is caught.
\<close>

definition on_connection_update :: "int \<Rightarrow> nat \<Rightarrow> connection_update \<Rightarrow> server \<Rightarrow> server" where
  "on_connection_update loggedOut r u st =
     (if \<not> r < length (socks st) then st
      else
        let sid = sock_session (socks st ! r);
            st1 = (if js_or (cu_qr u) [] \<noteq> []
                   then emit (QrCode sid (js_or (cu_qr u) [])) (set_status sid ''qr_generated'' st)
                   else st)
        in if cu_connection u = Some ''open'' then
             let st2 = emit (Ready sid) (set_status sid ''connected'' st1)
             in (case map_of (folders st2) sid of
                   None \<Rightarrow> st2
                 | Some files \<Rightarrow>
                     st2\<lparr>folders := AList.update sid
                          (if ''connection_info.json'' \<in> set files then files
                           else files @ [''connection_info.json'']) (folders st2)\<rparr>)
           else if cu_connection u = Some ''close'' then
             (if cu_statusCode u \<noteq> Some loggedOut then
                (emit (Disconnected sid (js_or (cu_message u) ''connection closed''))
                   (set_status sid ''reconnecting'' st1))
                \<lparr>timers := timers st1 @ [(sid, 5000)]\<rparr>
              else emit (LoggedOut sid) (delete_client sid (set_status sid ''logged_out'' st1)))
           else st1)"

text \<open>The \<^verbatim>\<open>messages.upsert\<close> handler of the client \<open>r\<close>.\<close>

definition on_messages_upsert :: "nat \<Rightarrow> upsert \<Rightarrow> server \<Rightarrow> server" where
  "on_messages_upsert r m st =
     (if \<not> r < length (socks st) then st
      else if upsert_type m = ''notify''
        then emit (NewMessage (sock_session (socks st ! r)) (upsert_messages m))
               (update_store r (messages_upsert_store m) st)
      else st)"

definition on_chats_set :: "nat \<Rightarrow> chat list \<Rightarrow> server \<Rightarrow> server" where
  "on_chats_set r cs st = update_store r (chats_set_store cs) st"

definition on_contacts_update :: "nat \<Rightarrow> contact list \<Rightarrow> server \<Rightarrow> server" where
  "on_contacts_update r us st = update_store r (contacts_update_store us) st"

text \<open>
  The \<^verbatim>\<open>messages.update\<close> handler of the client \<open>r\<close>: for each entry that is a read
  status of a stored chat, \<^verbatim>\<open>chat.unreadCount = 0\<close> and
  \<^verbatim>\<open>socket.emit('chatUpdate', { sessionId, chat: { jid: jid, unread: 0 } })\<close>.
\<close>

definition on_message_update :: "nat \<Rightarrow> msg_update \<Rightarrow> server \<Rightarrow> server" where
  "on_message_update r u st =
     (if r < length (socks st) \<and> is_read_update (store_at st r) u
      then emit (ChatUpdate (sock_session (socks st ! r)) (upd_remoteJid u) 0)
             (update_store r (set_read (upd_remoteJid u)) st)
      else st)"

definition on_messages_update :: "nat \<Rightarrow> msg_update list \<Rightarrow> server \<Rightarrow> server" where
  "on_messages_update r us st = fold (on_message_update r) us st"

text \<open>An event of a Protocol Client, and the handler the server attached to it.\<close>

datatype sock_event =
    ConnectionUpdate connection_update
  | MessagesUpsert upsert
  | ChatsSet "chat list"
  | ChatsUpsert "chat list"
  | ContactsUpdate "contact list"
  | MessagesUpdate "msg_update list"

fun dispatch :: "int \<Rightarrow> nat \<Rightarrow> sock_event \<Rightarrow> server \<Rightarrow> server" where
  "dispatch lo r (ConnectionUpdate u) st = on_connection_update lo r u st"
| "dispatch lo r (MessagesUpsert m) st = on_messages_upsert r m st"
| "dispatch lo r (ChatsSet cs) st = on_chats_set r cs st"
| "dispatch lo r (ChatsUpsert cs) st = on_chats_set r cs st"
| "dispatch lo r (ContactsUpdate us) st = on_contacts_update r us st"
| "dispatch lo r (MessagesUpdate us) st = on_messages_update r us st"

section \<open>Commands\<close>

text \<open>
  What a command passes to its \<^verbatim>\<open>callback\<close>: \<^verbatim>\<open>{ success: true }\<close>,
  \<^verbatim>\<open>{ success: true, status }\<close>, \<^verbatim>\<open>{ error }\<close>, \<^verbatim>\<open>{ success: false, error }\<close>,
  \<^verbatim>\<open>{ success: true, chats }\<close>, \<^verbatim>\<open>{ success: true, messages }\<close>.
\<close>

datatype response =
    R_success
  | R_status "string option"
  | R_error string
  | R_failure string
  | R_chats "chat_entry list"
  | R_messages "message_entry list"

text \<open>
  \<^verbatim>\<open>
  socket.on('generateQR', async (sessionId, callback) => {
    if (clients[sessionId]) {
      callback({ success: true, status: sessionStatus[sessionId] });
      return;
    }
    await createWhatsAppClient(sessionId, socket);
    callback({ success: true });
  \<close>
  (\<^verbatim>\<open>createWhatsAppClient\<close> catches its own errors, so the \<^verbatim>\<open>catch\<close> is not reached.)
\<close>

definition generateQR :: "string \<Rightarrow> creation \<Rightarrow> server \<Rightarrow> server \<times> response" where
  "generateQR sid oc st =
     (if client st sid \<noteq> None then (st, R_status (map_of (sessionStatus st) sid))
      else (createWhatsAppClient sid oc st, R_success))"

text \<open>
  \<^verbatim>\<open>
  socket.on('reconnectSession', async (sessionId, callback) => {
    if (!sessionExists(sessionId)) {
      callback({ error: 'Session does not exist' });
      return;
    }
    if (clients[sessionId]) { delete clients[sessionId]; }
    await createWhatsAppClient(sessionId, socket);
    callback({ success: true });
  \<close>
\<close>

definition reconnectSession :: "string \<Rightarrow> creation \<Rightarrow> server \<Rightarrow> server \<times> response" where
  "reconnectSession sid oc st =
     (if \<not> sessionExists st sid then (st, R_error ''Session does not exist'')
      else
        (createWhatsAppClient sid oc
           (if client st sid \<noteq> None then delete_client sid st else st),
         R_success))"

text \<open>
  \<^verbatim>\<open>getChats\<close>: \<^verbatim>\<open>{ success: false, error: 'Client not found' }\<close> without a client, else
  the chat list of its store. (\<^verbatim>\<open>sock.fetchChats()\<close> on an empty store is external, its
  failure is caught and its value unused.)
\<close>

definition getChats :: "nat list \<Rightarrow> (int \<Rightarrow> string) \<Rightarrow> string \<Rightarrow> server \<Rightarrow> response" where
  "getChats eng tf sid st =
     (case client st sid of
        None \<Rightarrow> R_failure ''Client not found''
      | Some r \<Rightarrow> R_chats (list_chats eng tf (store_at st r)))"

text \<open>
  \<^verbatim>\<open>getChatMessages\<close>. \<open>read_ok\<close> says that \<^verbatim>\<open>await sock.readMessages(...)\<close> returned
  (when it throws, the counter is not reset); \<open>fetched\<close> is the value of
  \<^verbatim>\<open>await sock.fetchMessagesFromWA(jid, 50)\<close>, \<open>None\<close> when it throws.
  \<^verbatim>\<open>
  if (!sock.store.messages[jid] || sock.store.messages[jid].all().length === 0) {
    try {
      const messages = await sock.fetchMessagesFromWA(jid, 50);
      if (!sock.store.messages[jid]) { sock.store.messages[jid] = { messages: [], ... }; }
      sock.store.messages[jid].messages = messages;
    } catch (fetchError) { ... }
  }
  if (!sock.store.messages[jid] || sock.store.messages[jid].all().length === 0) {
    callback({ success: true, messages: [] });
    return;
  }
  const messages = sock.store.messages[jid].all();
  ... map, sort ...
  callback({ success: true, messages: formattedMessages });
  \<close>
\<close>

definition store_fetched :: "string \<Rightarrow> message list \<Rightarrow> store \<Rightarrow> store" where
  "store_fetched j ms s = s\<lparr>messages := AList.update j ms (messages s)\<rparr>"

definition getChatMessages ::
  "nat list \<Rightarrow> (int \<Rightarrow> string) \<Rightarrow> string \<Rightarrow> string \<Rightarrow> bool \<Rightarrow> message list option
     \<Rightarrow> server \<Rightarrow> server \<times> response" where
  "getChatMessages eng tf sid j read_ok fetched st =
     (case client st sid of
        None \<Rightarrow> (st, R_failure ''Client not found'')
      | Some r \<Rightarrow>
          let st1 = (if read_ok then update_store r (set_read j) st else st);
              st2 = (if messages_of (store_at st1 r) j = []
                     then (case fetched of
                             None \<Rightarrow> st1
                           | Some ms \<Rightarrow> update_store r (store_fetched j ms) st1)
                     else st1);
              ms = messages_of (store_at st2 r) j
          in if ms = [] then (st2, R_messages [])
             else (st2, R_messages (list_messages eng tf ms)))"

text \<open>
  \<^verbatim>\<open>getChatMessages\<close> in \<^verbatim>\<open>src/backup4_server.js\<close>: no read mark and no fetch.
\<close>

definition getChatMessages_backup4 ::
  "nat list \<Rightarrow> (int \<Rightarrow> string) \<Rightarrow> string \<Rightarrow> string \<Rightarrow> server \<Rightarrow> response" where
  "getChatMessages_backup4 eng tf sid j st =
     (case client st sid of
        None \<Rightarrow> R_failure ''Client not found''
      | Some r \<Rightarrow>
          if map_of (messages (store_at st r)) j = None then R_messages []
          else R_messages (list_messages eng tf (messages_of (store_at st r) j)))"

text \<open>
  \<^verbatim>\<open>markChatAsRead\<close>: \<open>read_error\<close> is the message of the error
  \<^verbatim>\<open>await sock.readMessages(...)\<close> throws, \<open>None\<close> when it returns.
\<close>

definition markChatAsRead :: "string \<Rightarrow> string \<Rightarrow> string option \<Rightarrow> server \<Rightarrow> server \<times> response" where
  "markChatAsRead sid j read_error st =
     (case client st sid of
        None \<Rightarrow> (st, R_failure ''Client not found'')
      | Some r \<Rightarrow>
          (case read_error of
             None \<Rightarrow> (update_store r (set_read j) st, R_success)
           | Some e \<Rightarrow> (st, R_failure e)))"

text \<open>
  The \<^verbatim>\<open>logout\<close> command. \<open>logout_error\<close> is the message of the error
  \<^verbatim>\<open>await clients[sessionId].logout()\<close> throws, \<open>None\<close> when it returns.
  \<^verbatim>\<open>
  if (clients[sessionId]) {
    try {
      sessionStatus[sessionId] = 'logging_out';
      await clients[sessionId].logout();
      delete clients[sessionId];
      const sessionFolder = path.join(sessionsDir, sessionId);
      if (fs.existsSync(sessionFolder)) {
        fs.rmSync(sessionFolder, { recursive: true, force: true });
      }
      sessionStatus[sessionId] = 'logged_out';
      socket.emit('logoutSuccess', { sessionId });
      if (callback) callback({ success: true });
    } catch (error) {
      sessionStatus[sessionId] = 'error';
      socket.emit('logoutError', { sessionId, error: error.message });
      if (callback) callback({ error: error.message });
    }
  } else {
    socket.emit('logoutError', { sessionId, error: 'Session not found' });
    if (callback) callback({ error: 'Session not found' });
  }
  \<close>
\<close>

definition logout :: "string \<Rightarrow> string option \<Rightarrow> server \<Rightarrow> server \<times> response" where
  "logout sid logout_error st =
     (if client st sid \<noteq> None then
        (case logout_error of
           None \<Rightarrow>
             let st1 = delete_client sid (set_status sid ''logging_out'' st);
                 st2 = st1\<lparr>folders := AList.delete sid (folders st1)\<rparr>
             in (emit (LogoutSuccess sid) (set_status sid ''logged_out'' st2), R_success)
         | Some e \<Rightarrow>
             (emit (LogoutError sid e)
                (set_status sid ''error'' (set_status sid ''logging_out'' st)),
              R_error e))
      else (emit (LogoutError sid ''Session not found'') st, R_error ''Session not found''))"

text \<open>
  The HTTP endpoint \<^verbatim>\<open>POST /logout\<close> does the same without notifying the subscriber:
  \<^verbatim>\<open>
  clients[sessionId].logout()
    .then(() => {
      delete clients[sessionId];
      sessionStatus[sessionId] = 'logged_out';
      if (fs.existsSync(sessionFolder)) { fs.rmSync(sessionFolder, ...); }
    })
    .catch(error => { sessionStatus[sessionId] = 'error'; });
  \<close>
\<close>

definition http_logout :: "string \<Rightarrow> string option \<Rightarrow> server \<Rightarrow> server" where
  "http_logout sid logout_error st =
     (if client st sid \<noteq> None then
        (case logout_error of
           None \<Rightarrow>
             let st1 = set_status sid ''logged_out'' (delete_client sid st)
             in st1\<lparr>folders := AList.delete sid (folders st1)\<rparr>
         | Some e \<Rightarrow> set_status sid ''error'' st)
      else st)"

section \<open>Runs of the server\<close>

text \<open>
  What can happen to the process: an event of a Protocol Client reaches its handler, a
  reconnect timer fires, or a command arrives. Each carries the outcome of the external
  calls it awaits (\<open>eng\<close> is the engine's pick of an order, which only an answer depends
  on). \<^verbatim>\<open>getChats\<close>, \<^verbatim>\<open>checkSession\<close>, \<^verbatim>\<open>sendMessage\<close> and the two HTTP status
  endpoints change nothing in the state and are left out.
\<close>

datatype action =
    Event nat sock_event
  | TimerFires string creation
  | GenerateQR string creation
  | ReconnectSession string creation
  | GetChatMessages string string bool "message list option"
  | MarkChatAsRead string string "string option"
  | Logout string "string option"
  | HttpLogout string "string option"

fun step :: "nat list \<Rightarrow> int \<Rightarrow> (int \<Rightarrow> string) \<Rightarrow> action \<Rightarrow> server \<Rightarrow> server" where
  "step eng lo tf (Event r ev) st = dispatch lo r ev st"
| "step eng lo tf (TimerFires sid oc) st = timer_fires sid oc st"
| "step eng lo tf (GenerateQR sid oc) st = fst (generateQR sid oc st)"
| "step eng lo tf (ReconnectSession sid oc) st = fst (reconnectSession sid oc st)"
| "step eng lo tf (GetChatMessages sid j read_ok fetched) st =
     fst (getChatMessages eng tf sid j read_ok fetched st)"
| "step eng lo tf (MarkChatAsRead sid j read_error) st = fst (markChatAsRead sid j read_error st)"
| "step eng lo tf (Logout sid logout_error) st = fst (logout sid logout_error st)"
| "step eng lo tf (HttpLogout sid logout_error) st = http_logout sid logout_error st"

definition run ::
  "nat list \<Rightarrow> int \<Rightarrow> (int \<Rightarrow> string) \<Rightarrow> action list \<Rightarrow> server \<Rightarrow> server" where
  "run eng lo tf acts st = fold (step eng lo tf) acts st"

text \<open>
  The history \<^verbatim>\<open>sock.fetchMessagesFromWA\<close> hands to \<^verbatim>\<open>getChatMessages\<close> is stored as it
  is; this says that it names no message twice.
\<close>

fun fetch_distinct :: "action \<Rightarrow> bool" where
  "fetch_distinct (GetChatMessages sid j read_ok (Some ms)) = distinct (map key_id ms)"
| "fetch_distinct a = True"

text \<open>Every Protocol Client's store has \<open>unique_ids\<close>.\<close>

definition all_unique :: "server \<Rightarrow> bool" where
  "all_unique st \<longleftrightarrow> list_all (\<lambda>k. unique_ids (sock_store k)) (socks st)"

section \<open>The specification's wording of the display name\<close>

text \<open>
  The precedence as the specification words it, for every conversation: the chat
  record's name hint, else the contact's name, else the contact's notify alias, else the
  part of the conversation id before the \<^verbatim>\<open>@\<close>.
\<close>

definition spec_display_name :: "store \<Rightarrow> chat \<Rightarrow> string" where
  "spec_display_name s c =
     js_or (chat_name c)
       (contact_label (map_of (contacts s) (chat_id c)) (formatPhoneNumber (chat_id c)))"

section \<open>Sample data\<close>

text \<open>
  A session \<^verbatim>\<open>s1\<close> whose client has been created, and the same session after its
  connection closed with a status code (428) that is not the logged-out code (401).
\<close>

definition sample_created :: server where
  "sample_created = createWhatsAppClient ''s1'' Created initial"

definition sample_close :: connection_update where
  "sample_close = \<lparr>cu_connection = Some ''close'', cu_statusCode = Some 428,
                    cu_message = Some ''Connection Terminated'', cu_qr = None\<rparr>"

definition sample_reconnecting :: server where
  "sample_reconnecting = on_connection_update 401 0 sample_close sample_created"

text \<open>
  A conversation with one contact: a batch of three inbound messages and one own message,
  a read status for it, a fifth inbound message and a second own message.
\<close>

definition text_message :: "string \<Rightarrow> string \<Rightarrow> bool \<Rightarrow> int \<Rightarrow> string \<Rightarrow> message" where
  "text_message i j me t txt =
     \<lparr>key_id = i, key_remoteJid = j, key_fromMe = me, messageTimestamp = Some t,
      m_conversation = Some txt, m_extendedText = None\<rparr>"

definition alice :: string where "alice = ''111@s.whatsapp.net''"

definition sample_batch :: "message list" where
  "sample_batch =
     [text_message ''A1'' alice False 1700002800 ''hello'',
      text_message ''A2'' alice True 1700002810 ''hi'',
      text_message ''A3'' alice False 1700002820 ''are you there?'',
      text_message ''A4'' alice False 1700002830 ''good night'']"

definition sample_read :: msg_update where
  "sample_read = \<lparr>upd_remoteJid = alice, upd_status = Some ''READ''\<rparr>"

definition sample_next :: message where
  "sample_next = text_message ''A5'' alice False 1700002840 ''see you tomorrow''"

definition sample_own :: message where
  "sample_own = text_message ''A6'' alice True 1700002850 ''ok''"

definition sample_store :: store where
  "sample_store = fold ingest sample_batch empty_store"

definition sample_run :: "action list" where
  "sample_run =
     [GenerateQR ''s1'' Created,
      Event 0 (MessagesUpsert \<lparr>upsert_type = ''notify'', upsert_messages = sample_batch\<rparr>),
      Event 0 (MessagesUpsert \<lparr>upsert_type = ''notify'', upsert_messages = sample_batch\<rparr>),
      GetChatMessages ''s1'' alice True None]"

text \<open>
  A run in which the Protocol Client answers the history fetch of \<^verbatim>\<open>getChatMessages\<close>
  with the same message twice, and the message then arrives once more as an event.
\<close>

definition sample_duplicate_run :: "action list" where
  "sample_duplicate_run =
     [GenerateQR ''s1'' Created,
      GetChatMessages ''s1'' alice True (Some [sample_next, sample_next]),
      Event 0 (MessagesUpsert \<lparr>upsert_type = ''notify'', upsert_messages = [sample_next]\<rparr>)]"

text \<open>
  Two conversations whose last messages are two hours apart across midnight (UTC):
  14 Nov 2023 23:00:00 and 15 Nov 2023 01:00:00. Then the same store after a
  \<^verbatim>\<open>chats.set\<close> that carries a record for the status broadcast, and after a message for
  it.
\<close>

definition bob :: string where "bob = ''222@s.whatsapp.net''"

definition sample_evening :: message where
  "sample_evening = text_message ''E1'' alice False 1700002800 ''good night''"

definition sample_after_midnight :: message where
  "sample_after_midnight = text_message ''B1'' bob False 1700010000 ''still up?''"

definition sample_two_chats :: server where
  "sample_two_chats =
     on_messages_upsert 0
       \<lparr>upsert_type = ''notify'', upsert_messages = [sample_evening, sample_after_midnight]\<rparr>
       sample_created"

definition sample_with_status :: server where
  "sample_with_status =
     on_messages_upsert 0
       \<lparr>upsert_type = ''notify'',
        upsert_messages = [text_message ''S1'' broadcast False 1700010060 ''a story'']\<rparr>
       (on_chats_set 0
          [\<lparr>chat_id = broadcast, chat_name = Some ''Status'', chat_subject = None,
            conversationTimestamp = Some 1700010060, unreadCount = Some 2\<rparr>]
          sample_two_chats)"

text \<open>The session \<^verbatim>\<open>s1\<close> after its connection opened.\<close>

definition sample_open :: connection_update where
  "sample_open = \<lparr>cu_connection = Some ''open'', cu_statusCode = None,
                   cu_message = None, cu_qr = None\<rparr>"

definition sample_connected :: server where
  "sample_connected = on_connection_update 401 0 sample_open sample_created"

text \<open>
  A store that learnt of a group from an inbound message; a store with a private
  conversation and a contact that has only a notify alias; a chat record whose id has
  another domain.
\<close>

definition group_jid :: string where "group_jid = ''120363021234567890@g.us''"

definition sample_group_store :: store where
  "sample_group_store =
     ingest (text_message ''G1'' group_jid False 1700010000 ''hello all'') empty_store"

definition sample_notify_store :: store where
  "sample_notify_store =
     contacts_update_store
       [\<lparr>contact_id = alice, contact_name = None, contact_notify = Some ''Bob''\<rparr>]
       (ingest sample_next empty_store)"

definition sample_other_chat :: chat where
  "sample_other_chat =
     \<lparr>chat_id = ''12345@domain'', chat_name = None, chat_subject = None,
      conversationTimestamp = None, unreadCount = None\<rparr>"

section \<open>Properties of the store handlers\<close>

lemma set_update_subset: "set (AList.update k v al) \<subseteq> insert (k, v) (set al)"
  by (induction al) auto

lemma messages_of_update:
  "messages_of (s\<lparr>messages := AList.update j ms (messages s)\<rparr>) j' =
     (if j' = j then ms else messages_of s j')"
  by (simp add: messages_of_def update_conv')

lemma ingest_broadcast: "key_remoteJid m = broadcast \<Longrightarrow> ingest m s = s"
  by (simp add: ingest_def)

lemma has_id_map_of: "has_id s j i \<Longrightarrow> map_of (messages s) j \<noteq> None"
  by (cases "map_of (messages s) j") (simp_all add: has_id_def messages_of_def)

lemma ingest_duplicate: "has_id s (key_remoteJid m) (key_id m) \<Longrightarrow> ingest m s = s"
  using has_id_map_of[of s "key_remoteJid m" "key_id m"]
  by (auto simp: ingest_def Let_def has_id_def)

lemma messages_of_ingest:
  "messages_of (ingest m s) j =
     (if j = key_remoteJid m \<and> j \<noteq> broadcast \<and> \<not> has_id s j (key_id m)
      then messages_of s j @ [m] else messages_of s j)"
  by (auto simp: ingest_def Let_def has_id_def messages_of_def update_conv' split: option.splits)

lemma unique_ids_iff:
  "unique_ids s \<longleftrightarrow> (\<forall>(j, ms) \<in> set (messages s). distinct (map key_id ms))"
  by (simp add: unique_ids_def list_all_iff)

lemma distinct_messages_of: "unique_ids s \<Longrightarrow> distinct (map key_id (messages_of s j))"
  by (auto simp: unique_ids_iff messages_of_def split: option.splits dest: map_of_SomeD)

lemma unique_ids_update:
  "unique_ids s \<Longrightarrow> distinct (map key_id ms) \<Longrightarrow>
   unique_ids (s\<lparr>messages := AList.update j ms (messages s)\<rparr>)"
  using set_update_subset[of j ms "messages s"] by (auto simp: unique_ids_iff)

lemma unique_ids_chats: "unique_ids (s\<lparr>chats := c\<rparr>) = unique_ids s"
  by (simp add: unique_ids_def)

lemma ingest_accept:
  "key_remoteJid m \<noteq> broadcast \<Longrightarrow> \<not> has_id s (key_remoteJid m) (key_id m) \<Longrightarrow>
   ingest m s =
     s\<lparr>messages := AList.update (key_remoteJid m) (messages_of s (key_remoteJid m) @ [m]) (messages s),
       chats := AList.update (key_remoteJid m)
         (case map_of (chats s) (key_remoteJid m) of
            None \<Rightarrow> \<lparr>chat_id = key_remoteJid m, chat_name = None, chat_subject = None,
                     conversationTimestamp = messageTimestamp m,
                     unreadCount = Some (if key_fromMe m then 0 else 1)\<rparr>
          | Some c \<Rightarrow> c\<lparr>conversationTimestamp := messageTimestamp m,
                        unreadCount := (if \<not> key_fromMe m then Some (unread_or_0 c + 1)
                                        else unreadCount c)\<rparr>)
         (chats s)\<rparr>"
  by (auto simp: ingest_def Let_def has_id_def messages_of_def update_conv'
           split: option.splits)

lemma unique_ids_ingest: "unique_ids s \<Longrightarrow> unique_ids (ingest m s)"
proof -
  assume u: "unique_ids s"
  let ?j = "key_remoteJid m"
  show ?thesis
  proof (cases "?j \<noteq> broadcast \<and> \<not> has_id s ?j (key_id m)")
    case True
    then have d: "distinct (map key_id (messages_of s ?j @ [m]))"
      using distinct_messages_of[OF u, of ?j] by (auto simp: has_id_def list_ex_iff)
    show ?thesis using True unique_ids_update[OF u d, of ?j]
      by (simp add: ingest_accept unique_ids_def)
  next
    case False
    then show ?thesis using u by (auto simp: ingest_broadcast ingest_duplicate)
  qed
qed

lemma unique_ids_fold_ingest: "unique_ids s \<Longrightarrow> unique_ids (fold ingest ms s)"
  by (induction ms arbitrary: s) (simp_all add: unique_ids_ingest)

lemma has_id_ingest_mono: "has_id s j i \<Longrightarrow> has_id (ingest m s) j i"
  by (auto simp: has_id_def messages_of_ingest list_ex_iff)

lemma has_id_ingest_self:
  "key_remoteJid m \<noteq> broadcast \<Longrightarrow> has_id (ingest m s) (key_remoteJid m) (key_id m)"
  by (auto simp: has_id_def messages_of_ingest list_ex_iff)

lemma has_id_fold_mono: "has_id s j i \<Longrightarrow> has_id (fold ingest ms s) j i"
  by (induction ms arbitrary: s) (simp_all add: has_id_ingest_mono)

lemma has_id_fold_member:
  "m \<in> set ms \<Longrightarrow> key_remoteJid m \<noteq> broadcast \<Longrightarrow>
   has_id (fold ingest ms s) (key_remoteJid m) (key_id m)"
proof (induction ms arbitrary: s)
  case Nil
  then show ?case by simp
next
  case (Cons a ms)
  show ?case
  proof (cases "a = m")
    case True
    then show ?thesis using Cons.prems(2)
      by (simp add: has_id_fold_mono has_id_ingest_self)
  next
    case False
    then show ?thesis using Cons by simp
  qed
qed

lemma count_one:
  "distinct (map key_id xs) \<Longrightarrow> list_ex (\<lambda>e. key_id e = i) xs \<Longrightarrow>
   length (filter (\<lambda>e. key_id e = i) xs) = 1"
proof (induction xs)
  case Nil
  then show ?case by simp
next
  case (Cons x xs)
  show ?case
  proof (cases "key_id x = i")
    case True
    from Cons.prems(1) have "key_id x \<notin> key_id ` set xs" by simp
    with True have "\<forall>e \<in> set xs. key_id e \<noteq> i" by (metis imageI)
    then have "filter (\<lambda>e. key_id e = i) xs = []"
      by (simp add: filter_empty_conv)
    with True show ?thesis by simp
  next
    case False
    with Cons show ?thesis by simp
  qed
qed

lemma exactly_one_after_fold:
  "unique_ids s \<Longrightarrow> m \<in> set ms \<Longrightarrow> key_remoteJid m \<noteq> broadcast \<Longrightarrow>
   length (filter (\<lambda>e. key_id e = key_id m) (messages_of (fold ingest ms s) (key_remoteJid m))) = 1"
  using count_one[OF distinct_messages_of[OF unique_ids_fold_ingest, of s ms "key_remoteJid m"], of "key_id m"]
    has_id_fold_member[of m ms s]
  by (simp add: has_id_def)


lemma unread_of_ingest:
  "key_remoteJid m \<noteq> broadcast \<Longrightarrow> \<not> has_id s (key_remoteJid m) (key_id m) \<Longrightarrow>
   unread_of (ingest m s) (key_remoteJid m) =
     unread_of s (key_remoteJid m) + (if key_fromMe m then 0 else 1)"
  by (auto simp: ingest_accept unread_of_def unread_or_0_def update_conv' split: option.splits)

lemma unread_of_ingest_other:
  "j \<noteq> key_remoteJid m \<Longrightarrow> unread_of (ingest m s) j = unread_of s j"
  by (cases "key_remoteJid m \<noteq> broadcast \<and> \<not> has_id s (key_remoteJid m) (key_id m)")
     (auto simp: ingest_accept ingest_broadcast ingest_duplicate unread_of_def update_conv')

lemma chats_ingest_new:
  "key_remoteJid m \<noteq> broadcast \<Longrightarrow> \<not> has_id s (key_remoteJid m) (key_id m) \<Longrightarrow>
   map_of (chats s) (key_remoteJid m) = None \<Longrightarrow>
   map_of (chats (ingest m s)) (key_remoteJid m) =
     Some \<lparr>chat_id = key_remoteJid m, chat_name = None, chat_subject = None,
           conversationTimestamp = messageTimestamp m,
           unreadCount = Some (if key_fromMe m then 0 else 1)\<rparr>"
  by (simp add: ingest_accept update_conv')

lemma chats_ingest_self:
  "key_remoteJid m \<noteq> broadcast \<Longrightarrow> \<not> has_id s (key_remoteJid m) (key_id m) \<Longrightarrow>
   key_fromMe m \<Longrightarrow> map_of (chats s) (key_remoteJid m) = Some c \<Longrightarrow>
   map_of (chats (ingest m s)) (key_remoteJid m) =
     Some (c\<lparr>conversationTimestamp := messageTimestamp m\<rparr>)"
  by (simp add: ingest_accept update_conv')

lemma unread_of_fold_ingest:
  "j \<noteq> broadcast \<Longrightarrow> \<forall>m \<in> set ms. key_remoteJid m = j \<Longrightarrow> distinct (map key_id ms) \<Longrightarrow>
   \<forall>m \<in> set ms. \<not> has_id s j (key_id m) \<Longrightarrow>
   unread_of (fold ingest ms s) j = unread_of s j + int (length (filter (\<lambda>m. \<not> key_fromMe m) ms))"
proof (induction ms arbitrary: s)
  case Nil
  then show ?case by simp
next
  case (Cons a ms)
  have a: "key_remoteJid a = j" "\<not> has_id s j (key_id a)" using Cons.prems by auto
  have fresh: "\<forall>m \<in> set ms. \<not> has_id (ingest a s) j (key_id m)"
    using Cons.prems a by (auto simp: has_id_def messages_of_ingest list_ex_iff)
  have "unread_of (fold ingest ms (ingest a s)) j =
          unread_of (ingest a s) j + int (length (filter (\<lambda>m. \<not> key_fromMe m) ms))"
    using Cons.IH[OF Cons.prems(1) _ _ fresh] Cons.prems by simp
  then show ?case using unread_of_ingest[of a s] a Cons.prems(1) by simp
qed

lemma unread_of_read_update:
  "is_read_update s u \<Longrightarrow> unread_of (read_update u s) (upd_remoteJid u) = 0"
  by (auto simp: read_update_def is_read_update_def set_read_def unread_of_def unread_or_0_def
        update_conv' split: option.splits)

lemma unread_of_set_read: "unread_of (set_read j s) j = 0"
  by (auto simp: set_read_def unread_of_def unread_or_0_def update_conv' split: option.splits)

lemma messages_set_read: "messages (set_read j s) = messages s"
  by (simp add: set_read_def split: option.splits)

lemma messages_read_update: "messages (read_update u s) = messages s"
  by (simp add: read_update_def messages_set_read)

section \<open>Properties of the queries and of runs\<close>

text \<open>What the handlers of a client do to its store.\<close>

lemma store_at_on_messages_upsert:
  "r < length (socks st) \<Longrightarrow>
   store_at (on_messages_upsert r m st) r = messages_upsert_store m (store_at st r)"
  by (simp add: on_messages_upsert_def emit_def update_store_def store_at_def
        messages_upsert_store_def)

lemma store_at_on_message_update:
  "r < length (socks st) \<Longrightarrow>
   store_at (on_message_update r u st) r = read_update u (store_at st r)
   \<and> length (socks (on_message_update r u st)) = length (socks st)"
  by (simp add: on_message_update_def emit_def update_store_def store_at_def read_update_def)

lemma store_at_on_messages_update:
  "r < length (socks st) \<Longrightarrow>
   store_at (on_messages_update r us st) r = messages_update_store us (store_at st r)"
  unfolding on_messages_update_def messages_update_store_def
  by (induction us arbitrary: st) (simp_all add: store_at_on_message_update)

lemma set_insert_by: "set (insert_by cmp x ys) = insert x (set ys)"
  by (induction ys) auto

lemma set_stable_sort: "set (stable_sort cmp xs) = set xs"
  by (induction xs) (simp_all add: stable_sort_def set_insert_by)

lemma count_list_insert_by: "count_list (insert_by cmp x ys) a = count_list (x # ys) a"
  by (induction ys) auto

lemma count_list_stable_sort: "count_list (stable_sort cmp xs) a = count_list xs a"
  by (induction xs) (simp_all add: stable_sort_def count_list_insert_by)

lemma count_list_pick:
  assumes "i < length xs"
  shows "count_list (xs ! i # take i xs @ drop (Suc i) xs) a = count_list xs a"
proof -
  have "count_list xs a = count_list (take i xs @ xs ! i # drop (Suc i) xs) a"
    using id_take_nth_drop[OF assms] by simp
  then show ?thesis by simp
qed

lemma count_list_arrange: "count_list (arrange eng xs) a = count_list xs a"
proof (induction eng xs rule: arrange.induct)
  case (1 xs)
  show ?case by simp
next
  case (2 k ks)
  show ?case by simp
next
  case (3 k ks x xs)
  let ?i = "k mod length (x # xs)"
  have i: "?i < length (x # xs)" by simp
  have "count_list (arrange (k # ks) (x # xs)) a =
          count_list ((x # xs) ! ?i # take ?i (x # xs) @ drop (Suc ?i) (x # xs)) a"
    using "3.IH"[of ?i] by (simp add: Let_def del: take_Cons' drop_Suc_Cons)
  also have "\<dots> = count_list (x # xs) a"
    using i by (rule count_list_pick)
  finally show ?case .
qed

lemma set_count_list: "a \<in> set xs \<longleftrightarrow> 0 < count_list xs a"
  by (induction xs) auto

lemma length_arrange: "length (arrange eng xs) = length xs"
proof (induction eng xs rule: arrange.induct)
  case (1 xs)
  show ?case by simp
next
  case (2 k ks)
  show ?case by simp
next
  case (3 k ks x xs)
  let ?i = "k mod length (x # xs)"
  have i: "?i < length (x # xs)" by simp
  have "length (take ?i (x # xs) @ drop (Suc ?i) (x # xs)) = length xs"
    using i by (simp del: take_Cons' drop_Suc_Cons)
  then show ?case
    using "3.IH"[of ?i] by (simp add: Let_def del: take_Cons' drop_Suc_Cons)
qed

lemma js_sort_consistent:
  "consistent_comparator cmp xs \<Longrightarrow> js_sort eng cmp xs = stable_sort cmp xs"
  by (simp add: js_sort_def)

lemma count_list_js_sort: "count_list (js_sort eng cmp xs) a = count_list xs a"
  by (simp add: js_sort_def count_list_stable_sort count_list_arrange)

lemma set_js_sort: "set (js_sort eng cmp xs) = set xs"
  by (auto simp: set_count_list count_list_js_sort)

lemma js_sort_Nil: "js_sort eng cmp [] = []"
  by (cases eng) (simp_all add: js_sort_def stable_sort_def)

lemma length_insert_by: "length (insert_by cmp x ys) = Suc (length ys)"
  by (induction ys) auto

lemma length_stable_sort: "length (stable_sort cmp xs) = length xs"
  by (induction xs) (simp_all add: stable_sort_def length_insert_by)

lemma length_js_sort: "length (js_sort eng cmp xs) = length xs"
  by (simp add: js_sort_def length_stable_sort length_arrange)

lemma format_chat_jid: "format_chat tf s c = Some e \<Longrightarrow> c_jid e = chat_id c \<and> chat_id c \<noteq> broadcast \<and> c_name e = chat_display_name s c \<and> c_unread e = unread_or_0 c"
  by (auto simp: format_chat_def Let_def split: if_splits)

lemma list_chats_entry:
  "e \<in> set (list_chats eng tf s) \<Longrightarrow> \<exists>c \<in> set (map snd (chats s)). format_chat tf s c = Some e"
  by (force simp: list_chats_def set_js_sort map_filter_def)


lemma socks_set_status: "socks (set_status sid v st) = socks st"
  by (simp add: set_status_def)

lemma socks_emit: "socks (emit n st) = socks st"
  by (simp add: emit_def)

lemma socks_delete_client: "socks (delete_client sid st) = socks st"
  by (simp add: delete_client_def)

lemma socks_ensure_folder: "socks (ensure_folder sid st) = socks st"
  by (simp add: ensure_folder_def)

lemma all_unique_socks: "socks st' = socks st \<Longrightarrow> all_unique st' = all_unique st"
  by (simp add: all_unique_def)

lemma all_unique_update_store:
  assumes "all_unique st" and "\<And>s. unique_ids s \<Longrightarrow> unique_ids (f s)"
  shows "all_unique (update_store r f st)"
proof (cases "r < length (socks st)")
  case True
  have "unique_ids (store_at st r)"
    using assms(1) True by (simp add: all_unique_def list_all_length store_at_def)
  then have "unique_ids (f (store_at st r))" by (rule assms(2))
  then show ?thesis using assms(1) True
    by (auto simp: all_unique_def update_store_def list_all_length nth_list_update)
next
  case False
  then show ?thesis using assms(1) by (simp add: update_store_def)
qed

lemma all_unique_create: "all_unique st \<Longrightarrow> all_unique (createWhatsAppClient sid oc st)"
  by (cases oc)
     (simp_all add: createWhatsAppClient_def creation_failed_def all_unique_def Let_def
        socks_set_status socks_emit socks_ensure_folder unique_ids_def empty_store_def)

lemma socks_on_connection_update: "socks (on_connection_update lo r u st) = socks st"
  by (simp add: on_connection_update_def Let_def socks_set_status socks_emit socks_delete_client
        split: option.splits)

lemma unique_ids_messages_upsert_store:
  "unique_ids s \<Longrightarrow> unique_ids (messages_upsert_store m s)"
  by (simp add: messages_upsert_store_def unique_ids_fold_ingest)

lemma unique_ids_messages: "messages s' = messages s \<Longrightarrow> unique_ids s' = unique_ids s"
  by (simp add: unique_ids_def)

lemma messages_chats_set_store: "messages (chats_set_store cs s) = messages s"
  by (simp add: chats_set_store_def)

lemma messages_merge_contact: "messages (merge_contact u s) = messages s"
  by (simp add: merge_contact_def Let_def)

lemma messages_contacts_update_store: "messages (contacts_update_store us s) = messages s"
  unfolding contacts_update_store_def
  by (induction us arbitrary: s) (simp_all add: messages_merge_contact)

lemma all_unique_on_message_update:
  "all_unique st \<Longrightarrow> all_unique (on_message_update r u st)"
  by (simp add: on_message_update_def all_unique_socks[OF socks_emit]
        all_unique_update_store unique_ids_messages[OF messages_set_read])

lemma all_unique_on_messages_update:
  "all_unique st \<Longrightarrow> all_unique (on_messages_update r us st)"
  unfolding on_messages_update_def
  by (induction us arbitrary: st) (simp_all add: all_unique_on_message_update)

lemma all_unique_dispatch: "all_unique st \<Longrightarrow> all_unique (dispatch lo r ev st)"
proof (cases ev)
  case (ConnectionUpdate u)
  then show "all_unique st \<Longrightarrow> ?thesis"
    by (simp add: all_unique_socks[OF socks_on_connection_update])
next
  case (MessagesUpsert m)
  then show "all_unique st \<Longrightarrow> ?thesis"
    by (simp add: on_messages_upsert_def all_unique_socks[OF socks_emit]
          all_unique_update_store unique_ids_messages_upsert_store)
next
  case (ChatsSet cs)
  then show "all_unique st \<Longrightarrow> ?thesis"
    by (simp add: on_chats_set_def all_unique_update_store
          unique_ids_messages[OF messages_chats_set_store])
next
  case (ChatsUpsert cs)
  then show "all_unique st \<Longrightarrow> ?thesis"
    by (simp add: on_chats_set_def all_unique_update_store
          unique_ids_messages[OF messages_chats_set_store])
next
  case (ContactsUpdate us)
  then show "all_unique st \<Longrightarrow> ?thesis"
    by (simp add: on_contacts_update_def all_unique_update_store
          unique_ids_messages[OF messages_contacts_update_store])
next
  case (MessagesUpdate us)
  then show "all_unique st \<Longrightarrow> ?thesis"
    by (simp add: all_unique_on_messages_update)
qed

lemma all_unique_timer_fires: "all_unique st \<Longrightarrow> all_unique (timer_fires sid oc st)"
proof -
  assume a: "all_unique st"
  then have "all_unique (delete_client sid (st\<lparr>timers := remove1 (sid, 5000) (timers st)\<rparr>))"
    by (simp add: all_unique_def socks_delete_client)
  then have "all_unique (createWhatsAppClient sid oc
               (delete_client sid (st\<lparr>timers := remove1 (sid, 5000) (timers st)\<rparr>)))"
    by (rule all_unique_create)
  moreover have "all_unique (st\<lparr>timers := remove1 (sid, 5000) (timers st)\<rparr>)"
    using a by (simp add: all_unique_def)
  ultimately show ?thesis using a by (simp add: timer_fires_def reconnect_timeout_def)
qed

lemma all_unique_generateQR: "all_unique st \<Longrightarrow> all_unique (fst (generateQR sid oc st))"
  by (simp add: generateQR_def all_unique_create)

lemma all_unique_reconnectSession:
  "all_unique st \<Longrightarrow> all_unique (fst (reconnectSession sid oc st))"
  by (simp add: reconnectSession_def all_unique_create all_unique_socks[OF socks_delete_client])

lemma all_unique_logout: "all_unique st \<Longrightarrow> all_unique (fst (logout sid e st))"
  by (simp add: logout_def Let_def all_unique_def socks_emit socks_set_status socks_delete_client
        split: option.splits)

lemma all_unique_http_logout: "all_unique st \<Longrightarrow> all_unique (http_logout sid e st)"
  by (simp add: http_logout_def Let_def all_unique_def socks_set_status socks_delete_client
        split: option.splits)

lemma all_unique_markChatAsRead:
  "all_unique st \<Longrightarrow> all_unique (fst (markChatAsRead sid j e st))"
  by (simp add: markChatAsRead_def all_unique_update_store unique_ids_messages[OF messages_set_read]
        split: option.splits)

lemma unique_ids_store_fetched:
  "distinct (map key_id ms) \<Longrightarrow> unique_ids s \<Longrightarrow> unique_ids (store_fetched j ms s)"
  by (simp add: store_fetched_def unique_ids_update)

lemma all_unique_getChatMessages:
  "all_unique st \<Longrightarrow> fetch_distinct (GetChatMessages sid j read_ok fetched) \<Longrightarrow>
   all_unique (fst (getChatMessages eng tf sid j read_ok fetched st))"
  by (cases fetched)
     (auto simp: getChatMessages_def Let_def all_unique_update_store
        unique_ids_messages[OF messages_set_read] unique_ids_store_fetched
        split: option.splits)

lemma all_unique_step:
  "all_unique st \<Longrightarrow> fetch_distinct a \<Longrightarrow> all_unique (step eng lo tf a st)"
  by (cases a)
     (simp_all add: all_unique_dispatch all_unique_timer_fires all_unique_generateQR
        all_unique_reconnectSession all_unique_logout all_unique_http_logout
        all_unique_markChatAsRead all_unique_getChatMessages del: fetch_distinct.simps)

lemma all_unique_run:
  "all_unique st \<Longrightarrow> list_all fetch_distinct acts \<Longrightarrow> all_unique (run eng lo tf acts st)"
  unfolding run_def
  by (induction acts arbitrary: st) (simp_all add: all_unique_step)

lemma all_unique_initial: "all_unique initial"
  by (simp add: all_unique_def initial_def)

section \<open>The reconnect timer\<close>

lemma client_delete_client: "client (delete_client sid st) sid = None"
  by (simp add: client_def delete_client_def delete_conv')

lemma status_after_logout:
  "client st sid \<noteq> None \<Longrightarrow>
   map_of (sessionStatus (fst (logout sid e st))) sid =
     Some (case e of None \<Rightarrow> ''logged_out'' | Some x \<Rightarrow> ''error'')"
  by (cases e)
     (simp_all add: logout_def Let_def emit_def set_status_def delete_client_def update_conv')

lemma create_Created:
  "createWhatsAppClient sid Created st =
     (ensure_folder sid st)
       \<lparr>socks := socks st @ [\<lparr>sock_session = sid, sock_store = empty_store\<rparr>],
        clients := AList.update sid (length (socks st)) (clients st),
        sessionStatus := AList.update sid ''connecting'' (sessionStatus st)\<rparr>"
  by (simp add: createWhatsAppClient_def Let_def set_status_def ensure_folder_def)

text \<open>
  Claim C1. The callback of the reconnect timer (delay 5000 ms, armed by a close that is
  not a logout) does nothing when the session's status is no longer \<^verbatim>\<open>reconnecting\<close>:
  the whole state, and with it the registry, the status table and the list of clients
  constructed, is as before; this is the case after a \<^verbatim>\<open>logout\<close> command, whatever its
  outcome. When the status is still \<^verbatim>\<open>reconnecting\<close>, the callback deletes the handle and
  runs \<^verbatim>\<open>createWhatsAppClient\<close> for the same session id, which on success registers a new
  client with status \<^verbatim>\<open>connecting\<close>.
\<close>

theorem reconnect_timer_revalidates:
  "(map_of (sessionStatus st) sid \<noteq> Some ''reconnecting'' \<longrightarrow>
      reconnect_timeout sid oc st = st)
   \<and> (map_of (sessionStatus st) sid = Some ''reconnecting'' \<longrightarrow>
        reconnect_timeout sid oc st = createWhatsAppClient sid oc (delete_client sid st)
        \<and> client (delete_client sid st) sid = None
        \<and> socks (reconnect_timeout sid Created st) =
            socks st @ [\<lparr>sock_session = sid, sock_store = empty_store\<rparr>]
        \<and> client (reconnect_timeout sid Created st) sid = Some (length (socks st))
        \<and> map_of (sessionStatus (reconnect_timeout sid Created st)) sid = Some ''connecting'')
   \<and> (r < length (socks st) \<and> cu_connection u = Some ''close'' \<and> cu_statusCode u \<noteq> Some lo \<longrightarrow>
        timers (on_connection_update lo r u st) = timers st @ [(sock_session (socks st ! r), 5000)]
        \<and> map_of (sessionStatus (on_connection_update lo r u st)) (sock_session (socks st ! r))
            = Some ''reconnecting'')
   \<and> ((sid, 5000) \<in> set (timers st) \<and> map_of (sessionStatus st) sid \<noteq> Some ''reconnecting'' \<longrightarrow>
        timer_fires sid oc st = st\<lparr>timers := remove1 (sid, 5000) (timers st)\<rparr>)
   \<and> (client st sid \<noteq> None \<longrightarrow>
        reconnect_timeout sid oc (fst (logout sid e st)) = fst (logout sid e st))"
proof (intro conjI impI)
  assume "map_of (sessionStatus st) sid \<noteq> Some ''reconnecting''"
  then show "reconnect_timeout sid oc st = st" by (simp add: reconnect_timeout_def)
next
  assume "map_of (sessionStatus st) sid = Some ''reconnecting''"
  then show "reconnect_timeout sid oc st = createWhatsAppClient sid oc (delete_client sid st)"
    by (simp add: reconnect_timeout_def)
next
  show "client (delete_client sid st) sid = None" by (rule client_delete_client)
next
  assume "map_of (sessionStatus st) sid = Some ''reconnecting''"
  then show "socks (reconnect_timeout sid Created st) =
      socks st @ [\<lparr>sock_session = sid, sock_store = empty_store\<rparr>]"
    by (simp add: reconnect_timeout_def create_Created socks_delete_client)
next
  assume "map_of (sessionStatus st) sid = Some ''reconnecting''"
  then show "client (reconnect_timeout sid Created st) sid = Some (length (socks st))"
    by (simp add: reconnect_timeout_def create_Created socks_delete_client client_def update_conv')
next
  assume "map_of (sessionStatus st) sid = Some ''reconnecting''"
  then show "map_of (sessionStatus (reconnect_timeout sid Created st)) sid = Some ''connecting''"
    by (simp add: reconnect_timeout_def create_Created update_conv')
next
  assume "r < length (socks st) \<and> cu_connection u = Some ''close'' \<and> cu_statusCode u \<noteq> Some lo"
  then show "timers (on_connection_update lo r u st) = timers st @ [(sock_session (socks st ! r), 5000)]"
    by (simp add: on_connection_update_def Let_def emit_def set_status_def)
next
  assume "r < length (socks st) \<and> cu_connection u = Some ''close'' \<and> cu_statusCode u \<noteq> Some lo"
  then show "map_of (sessionStatus (on_connection_update lo r u st)) (sock_session (socks st ! r))
      = Some ''reconnecting''"
    by (simp add: on_connection_update_def Let_def emit_def set_status_def update_conv')
next
  assume "(sid, 5000) \<in> set (timers st) \<and> map_of (sessionStatus st) sid \<noteq> Some ''reconnecting''"
  then show "timer_fires sid oc st = st\<lparr>timers := remove1 (sid, 5000) (timers st)\<rparr>"
    by (simp add: timer_fires_def reconnect_timeout_def)
next
  assume "client st sid \<noteq> None"
  then show "reconnect_timeout sid oc (fst (logout sid e st)) = fst (logout sid e st)"
    using status_after_logout[of st sid e]
    by (cases e) (simp_all add: reconnect_timeout_def)
qed


theorem reconnect_timer_revalidates_witness:
  "map_of (sessionStatus sample_reconnecting) ''s1'' = Some ''reconnecting''
   \<and> client (reconnect_timeout ''s1'' Created sample_reconnecting) ''s1''
       = Some (length (socks sample_reconnecting))
   \<and> length (socks sample_reconnecting) = 1
   \<and> timers (on_connection_update 401 0 sample_close sample_created)
       = timers sample_created @ [(sock_session (socks sample_created ! 0), 5000)]
   \<and> timers sample_reconnecting = [(''s1'', 5000)]
   \<and> map_of (sessionStatus (fst (logout ''s1'' None sample_reconnecting))) ''s1''
       = Some ''logged_out''
   \<and> reconnect_timeout ''s1'' Created (fst (logout ''s1'' None sample_reconnecting))
       = fst (logout ''s1'' None sample_reconnecting)
   \<and> timer_fires ''s1'' Created (fst (logout ''s1'' None sample_reconnecting))
       = (fst (logout ''s1'' None sample_reconnecting))
           \<lparr>timers := remove1 (''s1'', 5000) (timers (fst (logout ''s1'' None sample_reconnecting)))\<rparr>
   \<and> remove1 (''s1'', 5000) (timers (fst (logout ''s1'' None sample_reconnecting))) = []"
proof -
  let ?out = "fst (logout ''s1'' None sample_reconnecting)"
  note at_reconnecting =
    reconnect_timer_revalidates[of sample_reconnecting "''s1''" Created 0 sample_close 401 None]
  note at_logged_out =
    reconnect_timer_revalidates[of ?out "''s1''" Created 0 sample_close 401 None]
  note at_created =
    reconnect_timer_revalidates[of sample_created "''s1''" Created 0 sample_close 401 None]
  have h1: "map_of (sessionStatus sample_reconnecting) ''s1'' = Some ''reconnecting''"
    by code_simp
  have h2: "client sample_reconnecting ''s1'' \<noteq> None"
    by code_simp
  have h3: "(''s1'', 5000) \<in> set (timers ?out)
            \<and> map_of (sessionStatus ?out) ''s1'' \<noteq> Some ''reconnecting''"
    by code_simp
  have h4: "0 < length (socks sample_created) \<and> cu_connection sample_close = Some ''close''
            \<and> cu_statusCode sample_close \<noteq> Some 401"
    by code_simp
  have v: "length (socks sample_reconnecting) = 1
           \<and> timers sample_reconnecting = [(''s1'', 5000)]
           \<and> remove1 (''s1'', 5000) (timers ?out) = []
           \<and> map_of (sessionStatus ?out) ''s1'' = Some ''logged_out''"
    by code_simp
  from at_reconnecting h1
  have c1: "client (reconnect_timeout ''s1'' Created sample_reconnecting) ''s1''
            = Some (length (socks sample_reconnecting))"
    by blast
  from at_created h4
  have c2: "timers (on_connection_update 401 0 sample_close sample_created)
            = timers sample_created @ [(sock_session (socks sample_created ! 0), 5000)]"
    by blast
  from at_reconnecting h2
  have c3: "reconnect_timeout ''s1'' Created ?out = ?out"
    by blast
  from at_logged_out h3
  have c4: "timer_fires ''s1'' Created ?out
            = ?out\<lparr>timers := remove1 (''s1'', 5000) (timers ?out)\<rparr>"
    by blast
  from h1 c1 c2 c3 c4 v show ?thesis
    by blast
qed

section \<open>The unread counter\<close>

lemma has_id_fold_ingest:
  "has_id (fold ingest ms s) j i \<Longrightarrow> has_id s j i \<or> i \<in> key_id ` set ms"
proof (induction ms arbitrary: s)
  case Nil
  then show ?case by simp
next
  case (Cons a ms)
  from Cons.prems have "has_id (fold ingest ms (ingest a s)) j i" by simp
  then have "has_id (ingest a s) j i \<or> i \<in> key_id ` set ms" by (rule Cons.IH)
  moreover have "has_id (ingest a s) j i \<Longrightarrow> has_id s j i \<or> i = key_id a"
    by (auto simp: has_id_def messages_of_ingest list_ex_iff split: if_splits)
  ultimately show ?case by auto
qed

lemma has_id_read_update: "has_id (read_update u s) j i = has_id s j i"
  by (simp add: has_id_def messages_of_def messages_read_update)

lemma has_id_empty_store: "\<not> has_id empty_store j i"
  by (simp add: has_id_def messages_of_def empty_store_def)

lemma unread_of_empty_store: "unread_of empty_store j = 0"
  by (simp add: unread_of_def empty_store_def)

lemma unread_of_read:
  "upd_remoteJid u \<noteq> broadcast \<Longrightarrow> upd_status u = Some ''READ'' \<Longrightarrow>
   unread_of (read_update u s) (upd_remoteJid u) = 0"
proof (cases "is_read_update s u")
  case True
  then show ?thesis by (rule unread_of_read_update)
next
  case False
  assume "upd_remoteJid u \<noteq> broadcast" "upd_status u = Some ''READ''"
  with False have "map_of (chats s) (upd_remoteJid u) = None"
    by (simp add: is_read_update_def)
  with False show ?thesis by (simp add: read_update_def unread_of_def)
qed

lemma chats_read:
  "upd_remoteJid u \<noteq> broadcast \<Longrightarrow> upd_status u = Some ''READ'' \<Longrightarrow>
   map_of (chats s) (upd_remoteJid u) = Some c \<Longrightarrow>
   map_of (chats (read_update u s)) (upd_remoteJid u) = Some (c\<lparr>unreadCount := Some 0\<rparr>)"
  by (simp add: read_update_def is_read_update_def set_read_def update_conv')

text \<open>
  Claim C2. In a conversation other than the status broadcast, a message that is accepted
  (its id is not yet in the conversation's sequence) adds 1 to the unread counter when it
  is inbound and leaves the counter as it is when it is the user's own; a record made for
  a first message starts at 1 or 0 accordingly; a \<^verbatim>\<open>READ\<close> status update sets the counter
  to 0. For a run of accepted messages the counter grows by the number of inbound ones,
  and after three inbound messages and one own message the counter is 3, after the read
  update 0, and after one more inbound message 1.
\<close>

theorem unread_count_tracks_inbound:
  "(key_remoteJid m \<noteq> broadcast \<and> \<not> has_id s (key_remoteJid m) (key_id m) \<longrightarrow>
      unread_of (ingest m s) (key_remoteJid m)
        = unread_of s (key_remoteJid m) + (if key_fromMe m then 0 else 1)
      \<and> (map_of (chats s) (key_remoteJid m) = None \<longrightarrow>
           map_of (chats (ingest m s)) (key_remoteJid m) =
             Some \<lparr>chat_id = key_remoteJid m, chat_name = None, chat_subject = None,
                   conversationTimestamp = messageTimestamp m,
                   unreadCount = Some (if key_fromMe m then 0 else 1)\<rparr>)
      \<and> (key_fromMe m \<and> map_of (chats s) (key_remoteJid m) = Some c \<longrightarrow>
           map_of (chats (ingest m s)) (key_remoteJid m) =
             Some (c\<lparr>conversationTimestamp := messageTimestamp m\<rparr>)))
   \<and> (upd_remoteJid u \<noteq> broadcast \<and> upd_status u = Some ''READ'' \<longrightarrow>
        unread_of (read_update u s) (upd_remoteJid u) = 0
        \<and> (map_of (chats s) (upd_remoteJid u) = Some c \<longrightarrow>
             map_of (chats (read_update u s)) (upd_remoteJid u) = Some (c\<lparr>unreadCount := Some 0\<rparr>)))
   \<and> (j \<noteq> broadcast \<and> list_all (\<lambda>x. key_remoteJid x = j \<and> \<not> has_id s j (key_id x)) ms
        \<and> distinct (map key_id ms) \<longrightarrow>
        unread_of (fold ingest ms s) j
          = unread_of s j + int (length (filter (\<lambda>x. \<not> key_fromMe x) ms)))
   \<and> (j \<noteq> broadcast \<and> list_all (\<lambda>x. key_remoteJid x = j) (m5 # ms)
        \<and> distinct (map key_id (m5 # ms))
        \<and> length (filter (\<lambda>x. \<not> key_fromMe x) ms) = 3
        \<and> length (filter key_fromMe ms) = 1
        \<and> \<not> key_fromMe m5 \<and> upd_remoteJid u = j \<and> upd_status u = Some ''READ'' \<longrightarrow>
        unread_of (fold ingest ms empty_store) j = 3
        \<and> unread_of (read_update u (fold ingest ms empty_store)) j = 0
        \<and> unread_of (ingest m5 (read_update u (fold ingest ms empty_store))) j = 1)"
proof (intro conjI impI)
  assume a: "key_remoteJid m \<noteq> broadcast \<and> \<not> has_id s (key_remoteJid m) (key_id m)"
  then show "unread_of (ingest m s) (key_remoteJid m)
        = unread_of s (key_remoteJid m) + (if key_fromMe m then 0 else 1)"
    by (simp add: unread_of_ingest)
  assume "map_of (chats s) (key_remoteJid m) = None"
  with a show "map_of (chats (ingest m s)) (key_remoteJid m) =
             Some \<lparr>chat_id = key_remoteJid m, chat_name = None, chat_subject = None,
                   conversationTimestamp = messageTimestamp m,
                   unreadCount = Some (if key_fromMe m then 0 else 1)\<rparr>"
    by (simp add: chats_ingest_new)
next
  assume a: "key_remoteJid m \<noteq> broadcast \<and> \<not> has_id s (key_remoteJid m) (key_id m)"
    and b: "key_fromMe m \<and> map_of (chats s) (key_remoteJid m) = Some c"
  then show "map_of (chats (ingest m s)) (key_remoteJid m) =
             Some (c\<lparr>conversationTimestamp := messageTimestamp m\<rparr>)"
    by (simp add: chats_ingest_self)
next
  assume a: "upd_remoteJid u \<noteq> broadcast \<and> upd_status u = Some ''READ''"
  then show "unread_of (read_update u s) (upd_remoteJid u) = 0"
    by (simp add: unread_of_read)
  assume "map_of (chats s) (upd_remoteJid u) = Some c"
  with a show "map_of (chats (read_update u s)) (upd_remoteJid u) = Some (c\<lparr>unreadCount := Some 0\<rparr>)"
    by (simp add: chats_read)
next
  assume "j \<noteq> broadcast \<and> list_all (\<lambda>x. key_remoteJid x = j \<and> \<not> has_id s j (key_id x)) ms
        \<and> distinct (map key_id ms)"
  then show "unread_of (fold ingest ms s) j
          = unread_of s j + int (length (filter (\<lambda>x. \<not> key_fromMe x) ms))"
    using unread_of_fold_ingest[of j ms s] by (simp add: list_all_iff)
next
  assume a: "j \<noteq> broadcast \<and> list_all (\<lambda>x. key_remoteJid x = j) (m5 # ms)
        \<and> distinct (map key_id (m5 # ms))
        \<and> length (filter (\<lambda>x. \<not> key_fromMe x) ms) = 3
        \<and> length (filter key_fromMe ms) = 1
        \<and> \<not> key_fromMe m5 \<and> upd_remoteJid u = j \<and> upd_status u = Some ''READ''"
  let ?s = "fold ingest ms empty_store"
  show three: "unread_of ?s j = 3"
    using a unread_of_fold_ingest[of j ms empty_store]
    by (simp add: list_all_iff has_id_empty_store unread_of_empty_store)
  show zero: "unread_of (read_update u ?s) j = 0"
    using a unread_of_read[of u ?s] by auto
  have "\<not> has_id ?s j (key_id m5)"
    using a has_id_fold_ingest[of ms empty_store j "key_id m5"]
    by (auto simp: has_id_empty_store)
  then have "\<not> has_id (read_update u ?s) (key_remoteJid m5) (key_id m5)"
    using a by (simp add: has_id_read_update)
  then show "unread_of (ingest m5 (read_update u ?s)) j = 1"
    using a zero unread_of_ingest[of m5 "read_update u ?s"] by auto
qed

theorem unread_count_tracks_inbound_witness:
  "unread_of (ingest sample_next empty_store) alice = unread_of empty_store alice + 1
   \<and> map_of (chats (ingest sample_next empty_store)) alice =
       Some \<lparr>chat_id = alice, chat_name = None, chat_subject = None,
             conversationTimestamp = Some 1700002840, unreadCount = Some 1\<rparr>
   \<and> map_of (chats sample_store) alice =
       Some \<lparr>chat_id = alice, chat_name = None, chat_subject = None,
             conversationTimestamp = Some 1700002830, unreadCount = Some 3\<rparr>
   \<and> map_of (chats (ingest sample_own sample_store)) alice =
       Some \<lparr>chat_id = alice, chat_name = None, chat_subject = None,
             conversationTimestamp = Some 1700002850, unreadCount = Some 3\<rparr>
   \<and> map_of (chats (read_update sample_read sample_store)) alice =
       Some \<lparr>chat_id = alice, chat_name = None, chat_subject = None,
             conversationTimestamp = Some 1700002830, unreadCount = Some 0\<rparr>
   \<and> unread_of (fold ingest sample_batch empty_store) alice = 3
   \<and> unread_of (read_update sample_read (fold ingest sample_batch empty_store)) alice = 0
   \<and> unread_of (ingest sample_next (read_update sample_read (fold ingest sample_batch empty_store)))
        alice = 1"
proof -
  let ?c = "\<lparr>chat_id = alice, chat_name = None, chat_subject = None,
             conversationTimestamp = Some 1700002830, unreadCount = Some (3::int)\<rparr>"
  note fresh = unread_count_tracks_inbound[of sample_next empty_store ?c sample_read
      alice sample_batch sample_next]
  note own = unread_count_tracks_inbound[of sample_own sample_store ?c sample_read
      alice sample_batch sample_next]
  have h1: "key_remoteJid sample_next \<noteq> broadcast
            \<and> \<not> has_id empty_store (key_remoteJid sample_next) (key_id sample_next)
            \<and> map_of (chats empty_store) (key_remoteJid sample_next) = None"
    by code_simp
  have h2: "key_remoteJid sample_own \<noteq> broadcast
            \<and> \<not> has_id sample_store (key_remoteJid sample_own) (key_id sample_own)
            \<and> key_fromMe sample_own
            \<and> map_of (chats sample_store) (key_remoteJid sample_own) = Some ?c"
    by code_simp
  have h3: "upd_remoteJid sample_read \<noteq> broadcast \<and> upd_status sample_read = Some ''READ''
            \<and> map_of (chats sample_store) (upd_remoteJid sample_read) = Some ?c"
    by code_simp
  have h4: "alice \<noteq> broadcast
            \<and> list_all (\<lambda>x. key_remoteJid x = alice) (sample_next # sample_batch)
            \<and> distinct (map key_id (sample_next # sample_batch))
            \<and> length (filter (\<lambda>x. \<not> key_fromMe x) sample_batch) = 3
            \<and> length (filter key_fromMe sample_batch) = 1
            \<and> \<not> key_fromMe sample_next \<and> upd_remoteJid sample_read = alice
            \<and> upd_status sample_read = Some ''READ''"
    by code_simp
  have v: "key_remoteJid sample_next = alice \<and> key_remoteJid sample_own = alice
           \<and> upd_remoteJid sample_read = alice
           \<and> messageTimestamp sample_next = Some 1700002840
           \<and> messageTimestamp sample_own = Some 1700002850
           \<and> \<not> key_fromMe sample_next
           \<and> ?c\<lparr>conversationTimestamp := Some 1700002850\<rparr> =
               \<lparr>chat_id = alice, chat_name = None, chat_subject = None,
                conversationTimestamp = Some 1700002850, unreadCount = Some 3\<rparr>
           \<and> ?c\<lparr>unreadCount := Some 0\<rparr> =
               \<lparr>chat_id = alice, chat_name = None, chat_subject = None,
                conversationTimestamp = Some 1700002830, unreadCount = Some 0\<rparr>"
    by code_simp
  from fresh h1 v
  have c1: "unread_of (ingest sample_next empty_store) alice = unread_of empty_store alice + 1
            \<and> map_of (chats (ingest sample_next empty_store)) alice =
                Some \<lparr>chat_id = alice, chat_name = None, chat_subject = None,
                      conversationTimestamp = Some 1700002840, unreadCount = Some 1\<rparr>"
    by simp
  from own h2 v
  have c2: "map_of (chats (ingest sample_own sample_store)) alice =
              Some \<lparr>chat_id = alice, chat_name = None, chat_subject = None,
                    conversationTimestamp = Some 1700002850, unreadCount = Some 3\<rparr>"
    by simp
  from own h3 v
  have c3: "map_of (chats (read_update sample_read sample_store)) alice =
              Some \<lparr>chat_id = alice, chat_name = None, chat_subject = None,
                    conversationTimestamp = Some 1700002830, unreadCount = Some 0\<rparr>"
    by simp
  from own h4
  have c4: "unread_of (fold ingest sample_batch empty_store) alice = 3
            \<and> unread_of (read_update sample_read (fold ingest sample_batch empty_store)) alice = 0
            \<and> unread_of (ingest sample_next
                 (read_update sample_read (fold ingest sample_batch empty_store))) alice = 1"
    by blast
  from c1 c2 c3 c4 h2 v show ?thesis by simp
qed

section \<open>Duplicate messages\<close>

text \<open>The handler of the older copy stores a message as often as it arrives.\<close>

lemma backup4_keeps_duplicates:
  "messages_of (ingest_backup4 m (ingest_backup4 m empty_store)) (key_remoteJid m) = [m, m]"
  by (simp add: ingest_backup4_def Let_def messages_of_def empty_store_def update_conv'
        split: option.splits)

lemma has_id_filter:
  "has_id s j i \<longleftrightarrow> filter (\<lambda>e. key_id e = i) (messages_of s j) \<noteq> []"
  by (auto simp: has_id_def list_ex_iff filter_empty_conv)

lemma count_ingest_le:
  assumes "length (filter (\<lambda>e. key_id e = i) (messages_of s j)) \<le> 1"
  shows "length (filter (\<lambda>e. key_id e = i) (messages_of (ingest a s) j)) \<le> 1"
proof (cases "j = key_remoteJid a \<and> j \<noteq> broadcast \<and> \<not> has_id s j (key_id a)")
  case True
  then have appended: "messages_of (ingest a s) j = messages_of s j @ [a]"
    by (auto simp: messages_of_ingest)
  show ?thesis
  proof (cases "key_id a = i")
    case same: True
    from True same have "\<not> has_id s j i" by auto
    then have "filter (\<lambda>e. key_id e = i) (messages_of s j) = []"
      by (simp add: has_id_filter)
    then show ?thesis by (simp add: appended same)
  next
    case False
    with assms show ?thesis by (simp add: appended)
  qed
next
  case False
  then have "messages_of (ingest a s) j = messages_of s j"
    by (auto simp: messages_of_ingest)
  with assms show ?thesis by simp
qed

lemma count_fold_ingest_le:
  "length (filter (\<lambda>e. key_id e = i) (messages_of s j)) \<le> 1 \<Longrightarrow>
   length (filter (\<lambda>e. key_id e = i) (messages_of (fold ingest ms s) j)) \<le> 1"
proof (induction ms arbitrary: s)
  case Nil
  then show ?case by simp
next
  case (Cons a ms)
  from Cons.prems
  have "length (filter (\<lambda>e. key_id e = i) (messages_of (ingest a s) j)) \<le> 1"
    by (rule count_ingest_le)
  then have "length (filter (\<lambda>e. key_id e = i) (messages_of (fold ingest ms (ingest a s)) j)) \<le> 1"
    by (rule Cons.IH)
  then show ?case by simp
qed

lemma exactly_one_after_batch:
  assumes "m \<in> set ms" and "key_remoteJid m \<noteq> broadcast"
    and "length (filter (\<lambda>e. key_id e = key_id m) (messages_of s (key_remoteJid m))) \<le> 1"
  shows "length (filter (\<lambda>e. key_id e = key_id m)
           (messages_of (fold ingest ms s) (key_remoteJid m))) = 1"
proof -
  let ?found = "filter (\<lambda>e. key_id e = key_id m)
                  (messages_of (fold ingest ms s) (key_remoteJid m))"
  have "?found \<noteq> []"
    using has_id_fold_member[OF assms(1,2), of s] by (simp add: has_id_filter)
  then have "0 < length ?found" by (cases ?found) simp_all
  moreover have "length ?found \<le> 1"
    using assms(3) by (rule count_fold_ingest_le)
  ultimately show ?thesis by arith
qed

text \<open>
  Claim C3, as amended. Ingesting a message whose id is already in its conversation's
  sequence changes nothing, and a message for the status broadcast is discarded. Two
  messages with the same id ingested into the same conversation, other than the status
  broadcast, leave exactly one record with that id when the sequence held the id at most
  once before; so does any batch that contains the message. A store in which no sequence
  holds an id twice (\<open>unique_ids\<close>) stays so under ingestion and under every event of
  the Protocol Client, and in every run of the server in which each history the Protocol
  Client returns to the fetch of \<^verbatim>\<open>getChatMessages\<close> names no message twice. (That
  history is stored as it comes.)
\<close>

theorem ingest_idempotent:
  "(has_id s (key_remoteJid m) (key_id m) \<longrightarrow> ingest m s = s)
   \<and> (key_remoteJid m = broadcast \<longrightarrow> ingest m s = s)
   \<and> (key_remoteJid m1 \<noteq> broadcast \<and> key_remoteJid m2 = key_remoteJid m1
        \<and> key_id m2 = key_id m1
        \<and> length (filter (\<lambda>e. key_id e = key_id m1) (messages_of s (key_remoteJid m1))) \<le> 1
        \<longrightarrow>
        ingest m2 (ingest m1 s) = ingest m1 s
        \<and> length (filter (\<lambda>e. key_id e = key_id m1)
                   (messages_of (ingest m2 (ingest m1 s)) (key_remoteJid m1))) = 1)
   \<and> (m \<in> set ms \<and> key_remoteJid m \<noteq> broadcast
        \<and> length (filter (\<lambda>e. key_id e = key_id m) (messages_of s (key_remoteJid m))) \<le> 1
        \<longrightarrow>
        length (filter (\<lambda>e. key_id e = key_id m)
                  (messages_of (fold ingest ms s) (key_remoteJid m))) = 1)
   \<and> (unique_ids s \<longrightarrow> unique_ids (ingest m s) \<and> unique_ids (messages_upsert_store b s))
   \<and> (all_unique st \<longrightarrow> all_unique (dispatch lo r ev st))
   \<and> (all_unique st \<and> list_all fetch_distinct acts \<longrightarrow> all_unique (run eng lo tf acts st))
   \<and> all_unique initial"
proof (intro conjI impI)
  assume "has_id s (key_remoteJid m) (key_id m)"
  then show "ingest m s = s" by (rule ingest_duplicate)
next
  assume "key_remoteJid m = broadcast"
  then show "ingest m s = s" by (rule ingest_broadcast)
next
  assume a: "key_remoteJid m1 \<noteq> broadcast \<and> key_remoteJid m2 = key_remoteJid m1
        \<and> key_id m2 = key_id m1
        \<and> length (filter (\<lambda>e. key_id e = key_id m1) (messages_of s (key_remoteJid m1))) \<le> 1"
  then have "has_id (ingest m1 s) (key_remoteJid m2) (key_id m2)"
    using has_id_ingest_self[of m1 s] by simp
  then show twice: "ingest m2 (ingest m1 s) = ingest m1 s" by (rule ingest_duplicate)
  have "length (filter (\<lambda>e. key_id e = key_id m1)
          (messages_of (fold ingest [m1] s) (key_remoteJid m1))) = 1"
    using a by (intro exactly_one_after_batch) simp_all
  then show "length (filter (\<lambda>e. key_id e = key_id m1)
                   (messages_of (ingest m2 (ingest m1 s)) (key_remoteJid m1))) = 1"
    by (simp add: twice)
next
  assume "m \<in> set ms \<and> key_remoteJid m \<noteq> broadcast
        \<and> length (filter (\<lambda>e. key_id e = key_id m) (messages_of s (key_remoteJid m))) \<le> 1"
  then show "length (filter (\<lambda>e. key_id e = key_id m)
                  (messages_of (fold ingest ms s) (key_remoteJid m))) = 1"
    by (simp add: exactly_one_after_batch)
next
  assume "unique_ids s"
  then show "unique_ids (ingest m s)" by (rule unique_ids_ingest)
next
  assume "unique_ids s"
  then show "unique_ids (messages_upsert_store b s)" by (rule unique_ids_messages_upsert_store)
next
  assume "all_unique st"
  then show "all_unique (dispatch lo r ev st)" by (rule all_unique_dispatch)
next
  assume "all_unique st \<and> list_all fetch_distinct acts"
  then show "all_unique (run eng lo tf acts st)"
    by (simp add: all_unique_run)
next
  show "all_unique initial" by (rule all_unique_initial)
qed

theorem ingest_idempotent_witness:
  "has_id sample_store (key_remoteJid (hd sample_batch)) (key_id (hd sample_batch))
   \<and> ingest (hd sample_batch) sample_store = sample_store
   \<and> length (filter (\<lambda>e. key_id e = key_id sample_next)
        (messages_of sample_store (key_remoteJid sample_next))) = 0
   \<and> ingest sample_next (ingest sample_next sample_store) = ingest sample_next sample_store
   \<and> length (filter (\<lambda>e. key_id e = key_id sample_next)
        (messages_of (ingest sample_next (ingest sample_next sample_store))
           (key_remoteJid sample_next))) = 1
   \<and> length (filter (\<lambda>e. key_id e = key_id sample_next)
        (messages_of (fold ingest (sample_batch @ [sample_next, sample_next] @ sample_batch)
           sample_store) (key_remoteJid sample_next))) = 1
   \<and> unique_ids (ingest sample_next sample_store)
   \<and> all_unique (dispatch 401 0 (ChatsSet []) sample_created)
   \<and> all_unique (run [] 401 hhmm sample_run initial)
   \<and> messages_of (store_at (run [] 401 hhmm sample_run initial) 0) alice = sample_batch"
proof -
  note t = ingest_idempotent[where s = sample_store and m = "hd sample_batch"
      and ?m1.0 = sample_next and ?m2.0 = sample_next
      and ms = "sample_batch @ [sample_next, sample_next] @ sample_batch"
      and b = "\<lparr>upsert_type = ''notify'', upsert_messages = sample_batch\<rparr>"
      and st = sample_created and lo = 401 and r = 0 and ev = "ChatsSet []"
      and acts = sample_run and eng = "[]" and tf = hhmm]
  note t2 = ingest_idempotent[where s = sample_store and m = sample_next
      and ?m1.0 = sample_next and ?m2.0 = sample_next
      and ms = "sample_batch @ [sample_next, sample_next] @ sample_batch"
      and b = "\<lparr>upsert_type = ''notify'', upsert_messages = sample_batch\<rparr>"
      and st = initial and lo = 401 and r = 0 and ev = "ChatsSet []"
      and acts = sample_run and eng = "[]" and tf = hhmm]
  have h1: "has_id sample_store (key_remoteJid (hd sample_batch)) (key_id (hd sample_batch))"
    by code_simp
  have h2: "key_remoteJid sample_next \<noteq> broadcast
            \<and> sample_next \<in> set (sample_batch @ [sample_next, sample_next] @ sample_batch)
            \<and> length (filter (\<lambda>e. key_id e = key_id sample_next)
                 (messages_of sample_store (key_remoteJid sample_next))) \<le> 1
            \<and> unique_ids sample_store"
    by code_simp
  have h3: "all_unique sample_created \<and> all_unique initial \<and> list_all fetch_distinct sample_run"
    by code_simp
  have v: "length (filter (\<lambda>e. key_id e = key_id sample_next)
              (messages_of sample_store (key_remoteJid sample_next))) = 0
           \<and> messages_of (store_at (run [] 401 hhmm sample_run initial) 0) alice = sample_batch"
    by code_simp
  from t h1 have c1: "ingest (hd sample_batch) sample_store = sample_store"
    by blast
  from t h2
  have c2: "ingest sample_next (ingest sample_next sample_store) = ingest sample_next sample_store
            \<and> length (filter (\<lambda>e. key_id e = key_id sample_next)
                 (messages_of (ingest sample_next (ingest sample_next sample_store))
                    (key_remoteJid sample_next))) = 1"
    by blast
  from t2 h2
  have c3: "length (filter (\<lambda>e. key_id e = key_id sample_next)
              (messages_of (fold ingest (sample_batch @ [sample_next, sample_next] @ sample_batch)
                 sample_store) (key_remoteJid sample_next))) = 1
            \<and> unique_ids (ingest sample_next sample_store)"
    by blast
  from t h3 have c4: "all_unique (dispatch 401 0 (ChatsSet []) sample_created)"
    by blast
  from t2 h3 have c5: "all_unique (run [] 401 hhmm sample_run initial)"
    by blast
  from h1 c1 c2 c3 c4 c5 v show ?thesis by blast
qed

text \<open>
  The claim as stated fails. The Protocol Client answers the history fetch of
  \<^verbatim>\<open>getChatMessages\<close> with the same message twice: both records are stored, and they
  stay when the message arrives once more as an event. And two messages with the same id
  for the status broadcast leave no record at all.
\<close>

theorem fetched_duplicates_are_stored:
  "\<not> all_unique (run [] 401 hhmm sample_duplicate_run initial)
   \<and> messages_of (store_at (run [] 401 hhmm sample_duplicate_run initial) 0) alice
       = [sample_next, sample_next]
   \<and> length (filter (\<lambda>e. key_id e = key_id sample_next)
        (messages_of (store_at (run [] 401 hhmm sample_duplicate_run initial) 0) alice)) = 2
   \<and> messages_of
        (ingest (text_message ''S1'' broadcast False 1700010060 ''a story'')
           (ingest (text_message ''S1'' broadcast False 1700010060 ''a story'') empty_store))
        broadcast = []"
  by code_simp

section \<open>Reading a conversation\<close>

lemma client_valid: "client st sid = Some r \<Longrightarrow> r < length (socks st)"
  by (auto simp: client_def split: option.splits if_splits)

lemma store_at_update_store:
  "r < length (socks st) \<Longrightarrow> store_at (update_store r f st) r = f (store_at st r)"
  by (simp add: update_store_def store_at_def)

lemma length_socks_update_store: "length (socks (update_store r f st)) = length (socks st)"
  by (simp add: update_store_def)

lemma clients_update_store: "clients (update_store r f st) = clients st"
  by (simp add: update_store_def)

lemma client_update_store: "client (update_store r f st) sid = client st sid"
  by (simp add: client_def clients_update_store length_socks_update_store split: option.splits)

lemma messages_of_set_read: "messages_of (set_read j s) j' = messages_of s j'"
  by (simp add: messages_of_def messages_set_read)

lemma messages_of_store_fetched: "messages_of (store_fetched j ms s) j = ms"
  by (simp add: messages_of_def store_fetched_def update_conv')

lemma list_messages_Nil: "list_messages eng tf [] = []"
  by (simp add: list_messages_def js_sort_Nil)

lemma length_list_messages: "length (list_messages eng tf ms) = length ms"
  by (simp add: list_messages_def length_js_sort)

lemma count_list_list_messages:
  "count_list (list_messages eng tf ms) e = count_list (map (format_message tf) ms) e"
  by (simp add: list_messages_def count_list_js_sort)

lemma timestamps_consistent:
  assumes "list_all (\<lambda>m. case messageTimestamp m of None \<Rightarrow> False | Some t \<Rightarrow> t \<noteq> 0) ms"
  shows "consistent_comparator message_compare (map (format_message tf) ms)"
proof -
  have ts: "\<exists>t. f_timestamp e = Some t \<and> t \<noteq> 0" if "e \<in> set (map (format_message tf) ms)" for e
    using that assms by (auto simp: list_all_iff format_message_def split: option.splits)
  have cmp: "message_compare a b = the (f_timestamp a) - the (f_timestamp b)"
    if "a \<in> set (map (format_message tf) ms)" "b \<in> set (map (format_message tf) ms)" for a b
    using ts[OF that(1)] ts[OF that(2)] by (auto simp: message_compare_def)
  show ?thesis
    unfolding consistent_comparator_def comparator_transitive_def list_all_iff
    by (auto simp: cmp)
qed

lemma list_messages_timestamps:
  "list_all (\<lambda>m. case messageTimestamp m of None \<Rightarrow> False | Some t \<Rightarrow> t \<noteq> 0) ms \<Longrightarrow>
   list_messages eng tf ms = stable_sort message_compare (map (format_message tf) ms)"
  by (simp add: list_messages_def js_sort_consistent timestamps_consistent)

lemma getChatMessages_empty:
  assumes "client st sid = Some r" and "messages_of (store_at st r) j = []"
  shows "getChatMessages eng tf sid j read_ok fetched st =
           (case fetched of
              None \<Rightarrow> ((if read_ok then update_store r (set_read j) st else st), R_messages [])
            | Some ms \<Rightarrow>
                (update_store r (store_fetched j ms)
                   (if read_ok then update_store r (set_read j) st else st),
                 R_messages (list_messages eng tf ms)))"
proof -
  let ?st1 = "if read_ok then update_store r (set_read j) st else st"
  have r: "r < length (socks st)" using assms(1) by (rule client_valid)
  have r1: "r < length (socks ?st1)" using r by (simp add: length_socks_update_store)
  have e1: "messages_of (store_at ?st1 r) j = []"
    using assms(2) r by (simp add: store_at_update_store messages_of_set_read)
  show ?thesis
  proof (cases fetched)
    case None
    then show ?thesis using assms(1) e1
      by (simp add: getChatMessages_def Let_def)
  next
    case (Some ms)
    have "messages_of (store_at (update_store r (store_fetched j ms) ?st1) r) j = ms"
      using r1 by (simp add: store_at_update_store messages_of_store_fetched)
    then show ?thesis using assms(1) e1 Some
      by (auto simp: getChatMessages_def Let_def list_messages_Nil)
  qed
qed

lemma getChatMessages_stores:
  assumes "client st sid = Some r" and "messages_of (store_at st r) j = []"
  shows "messages_of (store_at (fst (getChatMessages eng tf sid j read_ok (Some ms) st)) r) j = ms"
proof -
  let ?st1 = "if read_ok then update_store r (set_read j) st else st"
  have "r < length (socks st)" using assms(1) by (rule client_valid)
  then have "r < length (socks ?st1)" by (simp add: length_socks_update_store)
  then have "messages_of (store_at (update_store r (store_fetched j ms) ?st1) r) j = ms"
    by (simp add: store_at_update_store messages_of_store_fetched)
  then show ?thesis by (simp add: getChatMessages_empty[OF assms])
qed

text \<open>The older copy answers with the empty list whenever nothing is stored.\<close>

lemma getChatMessages_backup4_empty:
  "client st sid = Some r \<Longrightarrow> messages_of (store_at st r) j = [] \<Longrightarrow>
   getChatMessages_backup4 eng tf sid j st = R_messages []"
  by (simp add: getChatMessages_backup4_def list_messages_Nil)

text \<open>
  Claim C10, as amended. For a registered session and a conversation with no stored
  messages, whose id is not the name of a member of \<^verbatim>\<open>Object.prototype\<close> (for such an id
  the lookup \<^verbatim>\<open>sock.store.messages[jid]\<close> finds the inherited member, which the model
  leaves out), \<^verbatim>\<open>getChatMessages\<close> answers \<^verbatim>\<open>success: true\<close>. It first marks the chat as
  read, when \<^verbatim>\<open>readMessages\<close> returns, and asks the Protocol Client for the history
  (\<^verbatim>\<open>fetchMessagesFromWA\<close>). When that call throws, nothing more changes and the list in the
  answer is empty. When it returns, the history becomes the conversation's stored
  sequence and the answer lists it: empty for an empty history, else one entry for each
  message, in ascending order of the timestamps when every fetched message has a
  timestamp other than 0, and in the order the engine's sort leaves them otherwise.
  Without a registered client the answer is
  \<^verbatim>\<open>{ success: false, error: 'Client not found' }\<close> and nothing changes.
\<close>

theorem getChatMessages_without_stored_messages:
  "(client st sid = Some r \<and> messages_of (store_at st r) j = [] \<and> \<not> prototype_member j \<longrightarrow>
      getChatMessages eng tf sid j read_ok None st
        = ((if read_ok then update_store r (set_read j) st else st), R_messages [])
      \<and> getChatMessages eng tf sid j read_ok (Some []) st
        = (update_store r (store_fetched j [])
             (if read_ok then update_store r (set_read j) st else st),
           R_messages [])
      \<and> getChatMessages eng tf sid j read_ok (Some ms) st
        = (update_store r (store_fetched j ms)
             (if read_ok then update_store r (set_read j) st else st),
           R_messages (list_messages eng tf ms))
      \<and> messages_of (store_at (fst (getChatMessages eng tf sid j read_ok (Some ms) st)) r) j = ms
      \<and> length (list_messages eng tf ms) = length ms
      \<and> count_list (list_messages eng tf ms) e = count_list (map (format_message tf) ms) e
      \<and> (list_all (\<lambda>m. case messageTimestamp m of None \<Rightarrow> False | Some t \<Rightarrow> t \<noteq> 0) ms
          \<longrightarrow> list_messages eng tf ms
               = stable_sort message_compare (map (format_message tf) ms)))
   \<and> (client st sid = None \<longrightarrow>
        getChatMessages eng tf sid j read_ok fetched st = (st, R_failure ''Client not found''))"
proof (intro conjI impI)
  assume a: "client st sid = Some r \<and> messages_of (store_at st r) j = [] \<and> \<not> prototype_member j"
  then have c: "client st sid = Some r" and e: "messages_of (store_at st r) j = []"
    by simp_all
  show "getChatMessages eng tf sid j read_ok None st
        = ((if read_ok then update_store r (set_read j) st else st), R_messages [])"
    by (simp add: getChatMessages_empty[OF c e])
  show "getChatMessages eng tf sid j read_ok (Some []) st
        = (update_store r (store_fetched j [])
             (if read_ok then update_store r (set_read j) st else st),
           R_messages [])"
    by (simp add: getChatMessages_empty[OF c e] list_messages_Nil)
  show "getChatMessages eng tf sid j read_ok (Some ms) st
        = (update_store r (store_fetched j ms)
             (if read_ok then update_store r (set_read j) st else st),
           R_messages (list_messages eng tf ms))"
    by (simp add: getChatMessages_empty[OF c e])
  show "messages_of (store_at (fst (getChatMessages eng tf sid j read_ok (Some ms) st)) r) j = ms"
    using c e by (rule getChatMessages_stores)
next
  show "length (list_messages eng tf ms) = length ms" by (rule length_list_messages)
next
  show "count_list (list_messages eng tf ms) e = count_list (map (format_message tf) ms) e"
    by (rule count_list_list_messages)
next
  assume "list_all (\<lambda>m. case messageTimestamp m of None \<Rightarrow> False | Some t \<Rightarrow> t \<noteq> 0) ms"
  then show "list_messages eng tf ms = stable_sort message_compare (map (format_message tf) ms)"
    by (rule list_messages_timestamps)
next
  assume "client st sid = None"
  then show "getChatMessages eng tf sid j read_ok fetched st = (st, R_failure ''Client not found'')"
    by (simp add: getChatMessages_def)
qed

theorem getChatMessages_without_stored_messages_witness:
  "client sample_created ''s1'' = Some 0
   \<and> messages_of (store_at sample_created 0) alice = []
   \<and> \<not> prototype_member alice
   \<and> getChatMessages [] hhmm ''s1'' alice True None sample_created
       = ((if True then update_store 0 (set_read alice) sample_created else sample_created),
          R_messages [])
   \<and> getChatMessages [] hhmm ''s1'' alice True (Some [sample_next, sample_batch ! 3]) sample_created
       = (update_store 0 (store_fetched alice [sample_next, sample_batch ! 3])
            (if True then update_store 0 (set_read alice) sample_created else sample_created),
          R_messages (list_messages [] hhmm [sample_next, sample_batch ! 3]))
   \<and> messages_of (store_at (fst (getChatMessages [] hhmm ''s1'' alice True
          (Some [sample_next, sample_batch ! 3]) sample_created)) 0) alice
       = [sample_next, sample_batch ! 3]
   \<and> list_messages [] hhmm [sample_next, sample_batch ! 3]
       = stable_sort message_compare (map (format_message hhmm) [sample_next, sample_batch ! 3])
   \<and> map f_id (list_messages [] hhmm [sample_next, sample_batch ! 3]) = [''A4'', ''A5'']
   \<and> client initial ''s1'' = None
   \<and> getChatMessages [] hhmm ''s1'' alice True None initial
       = (initial, R_failure ''Client not found'')"
proof -
  let ?ms = "[sample_next, sample_batch ! 3]"
  note t = getChatMessages_without_stored_messages[where st = sample_created and sid = "''s1''"
      and r = 0 and j = alice and eng = "[]" and tf = hhmm and read_ok = True and ms = ?ms
      and fetched = None and e = "format_message hhmm sample_next"]
  note t0 = getChatMessages_without_stored_messages[where st = initial and sid = "''s1''"
      and r = 0 and j = alice and eng = "[]" and tf = hhmm and read_ok = True and ms = ?ms
      and fetched = None and e = "format_message hhmm sample_next"]
  have h: "client sample_created ''s1'' = Some 0
           \<and> messages_of (store_at sample_created 0) alice = []
           \<and> \<not> prototype_member alice"
    by code_simp
  have h0: "client initial ''s1'' = None"
    by code_simp
  have h1: "list_all (\<lambda>m. case messageTimestamp m of None \<Rightarrow> False | Some t \<Rightarrow> t \<noteq> 0) ?ms"
    by code_simp
  have v: "map f_id (list_messages [] hhmm ?ms) = [''A4'', ''A5'']"
    by code_simp
  from t h
  have c1: "getChatMessages [] hhmm ''s1'' alice True None sample_created
       = ((if True then update_store 0 (set_read alice) sample_created else sample_created),
          R_messages [])"
    by blast
  from t h
  have c2: "getChatMessages [] hhmm ''s1'' alice True (Some ?ms) sample_created
       = (update_store 0 (store_fetched alice ?ms)
            (if True then update_store 0 (set_read alice) sample_created else sample_created),
          R_messages (list_messages [] hhmm ?ms))"
    by blast
  from t h
  have c3: "messages_of (store_at (fst (getChatMessages [] hhmm ''s1'' alice True
          (Some ?ms) sample_created)) 0) alice = ?ms"
    by blast
  from t h h1
  have c4: "list_messages [] hhmm ?ms
       = stable_sort message_compare (map (format_message hhmm) ?ms)"
    by blast
  from t0 h0
  have c0: "getChatMessages [] hhmm ''s1'' alice True None initial
            = (initial, R_failure ''Client not found'')"
    by blast
  from h h0 c1 c2 c3 c4 c0 v show ?thesis by blast
qed

text \<open>
  The claim as stated fails: nothing is stored for the conversation, the Protocol Client
  returns one message, and the answer lists it.
\<close>

theorem fetched_history_is_returned:
  "client sample_created ''s1'' = Some 0
   \<and> messages_of (store_at sample_created 0) alice = []
   \<and> snd (getChatMessages [] hhmm ''s1'' alice True (Some [sample_next]) sample_created)
       = R_messages [\<lparr>f_id = ''A5'', f_fromMe = False, f_text = ''see you tomorrow'',
                      f_time = ''23:00'', f_timestamp = Some 1700002840\<rparr>]
   \<and> snd (getChatMessages [] hhmm ''s1'' alice True (Some [sample_next]) sample_created)
       \<noteq> R_messages []"
  by code_simp

section \<open>Logout\<close>

text \<open>The HTTP endpoint keeps the handle after a failed \<^verbatim>\<open>logout()\<close> as well.\<close>

lemma http_logout_failure:
  "clients (http_logout sid (Some e) st) = clients st
   \<and> folders (http_logout sid (Some e) st) = folders st"
  by (simp add: http_logout_def set_status_def)




section \<open>The chat list\<close>

text \<open>
  Claim C5 (the list is ordered by most recent activity first) does not hold of the
  code: the comparator orders the printed time of day, not the timestamp. The chat whose
  last message came at 23:00 is listed before the chat whose last message came two hours
  later, at 01:00 of the next day. (Both chats carry a time, so the comparator is
  consistent here and the order is the same in every engine.)
\<close>

theorem chat_list_order_at_midnight:
  "map (\<lambda>(j, ms). (j, map messageTimestamp ms)) (messages (store_at sample_two_chats 0))
     = [(alice, [Some 1700002800]), (bob, [Some 1700010000])]
   \<and> getChats eng hhmm ''s1'' sample_two_chats =
       R_chats [\<lparr>c_jid = alice, c_name = ''111'', c_lastMessage = ''good night'',
                  c_time = ''23:00'', c_unread = 1\<rparr>,
                \<lparr>c_jid = bob, c_name = ''222'', c_lastMessage = ''still up?'',
                  c_time = ''01:00'', c_unread = 1\<rparr>]"
proof -
  let ?es = "[\<lparr>c_jid = alice, c_name = ''111'', c_lastMessage = ''good night'',
                  c_time = ''23:00'', c_unread = 1\<rparr>,
                \<lparr>c_jid = bob, c_name = ''222'', c_lastMessage = ''still up?'',
                  c_time = ''01:00'', c_unread = 1\<rparr>]"
  have stored: "map (\<lambda>(j, ms). (j, map messageTimestamp ms))
                  (messages (store_at sample_two_chats 0))
                = [(alice, [Some 1700002800]), (bob, [Some 1700010000])]"
    by code_simp
  have registered: "client sample_two_chats ''s1'' = Some 0"
    by code_simp
  have formatted: "List.map_filter (format_chat hhmm (store_at sample_two_chats 0))
                     (map snd (chats (store_at sample_two_chats 0))) = ?es"
    by code_simp
  have consistent: "consistent_comparator chat_compare ?es"
    by code_simp
  have sorted: "stable_sort chat_compare ?es = ?es"
    by code_simp
  have "getChats eng hhmm ''s1'' sample_two_chats = R_chats (js_sort eng chat_compare ?es)"
    by (simp only: getChats_def list_chats_def registered option.case formatted)
  also have "\<dots> = R_chats ?es"
    by (simp only: js_sort_consistent[OF consistent] sorted)
  finally show ?thesis using stored by blast
qed

text \<open>
  Claim C6. Whatever the store holds, no entry of the chat list \<^verbatim>\<open>getChats\<close> returns has
  the id \<^verbatim>\<open>status@broadcast\<close>; and a message for that id is not stored at all.
\<close>

theorem broadcast_never_listed:
  "(getChats eng tf sid st = R_chats cs \<longrightarrow> broadcast \<notin> set (map c_jid cs))
   \<and> broadcast \<notin> set (map c_jid (list_chats eng tf s))
   \<and> (key_remoteJid m = broadcast \<longrightarrow> ingest m s = s)"
proof -
  have listed: "broadcast \<notin> set (map c_jid (list_chats eng tf s'))" for s'
  proof
    assume "broadcast \<in> set (map c_jid (list_chats eng tf s'))"
    then obtain e where e: "e \<in> set (list_chats eng tf s')" "c_jid e = broadcast" by auto
    from list_chats_entry[OF e(1)] obtain c where "format_chat tf s' c = Some e" by blast
    from format_chat_jid[OF this] e(2) show False by auto
  qed
  have "getChats eng tf sid st = R_chats cs \<Longrightarrow> broadcast \<notin> set (map c_jid cs)"
    using listed by (auto simp: getChats_def split: option.splits)
  then show ?thesis using listed by (auto simp: ingest_broadcast)
qed

theorem broadcast_never_listed_witness:
  "map fst (chats (store_at sample_with_status 0)) = [alice, bob, broadcast]
   \<and> getChats [] hhmm ''s1'' sample_with_status =
       R_chats [\<lparr>c_jid = alice, c_name = ''111'', c_lastMessage = ''good night'',
                  c_time = ''23:00'', c_unread = 1\<rparr>,
                \<lparr>c_jid = bob, c_name = ''222'', c_lastMessage = ''still up?'',
                  c_time = ''01:00'', c_unread = 1\<rparr>]
   \<and> broadcast \<notin> set (map c_jid
        [\<lparr>c_jid = alice, c_name = ''111'', c_lastMessage = ''good night'',
           c_time = ''23:00'', c_unread = 1\<rparr>,
         \<lparr>c_jid = bob, c_name = ''222'', c_lastMessage = ''still up?'',
           c_time = ''01:00'', c_unread = 1\<rparr>])
   \<and> ingest (text_message ''S1'' broadcast False 1700010060 ''a story'') empty_store
       = empty_store"
proof -
  let ?cs = "[\<lparr>c_jid = alice, c_name = ''111'', c_lastMessage = ''good night'',
                  c_time = ''23:00'', c_unread = 1\<rparr>,
                \<lparr>c_jid = bob, c_name = ''222'', c_lastMessage = ''still up?'',
                  c_time = ''01:00'', c_unread = 1\<rparr>]"
  note t = broadcast_never_listed[of "[]" hhmm "''s1''" sample_with_status ?cs empty_store
      "text_message ''S1'' broadcast False 1700010060 ''a story''"]
  have h1: "getChats [] hhmm ''s1'' sample_with_status = R_chats ?cs"
    by code_simp
  have h2: "key_remoteJid (text_message ''S1'' broadcast False 1700010060 ''a story'') = broadcast"
    by code_simp
  have v: "map fst (chats (store_at sample_with_status 0)) = [alice, bob, broadcast]"
    by code_simp
  from t h1 h2 v show ?thesis by blast
qed

section \<open>Display names\<close>

lemma js_or_no_hint: "js_or a [] = [] \<Longrightarrow> js_or a b = b"
  by (auto simp: js_or_def split: option.splits if_splits)

lemma display_name_private:
  "endsWith (chat_id c) ''@s.whatsapp.net'' \<Longrightarrow> chat_display_name s c = spec_display_name s c"
  by (auto simp: chat_display_name_def spec_display_name_def Let_def js_or_def
           contact_label_def split: option.splits)

lemma display_name_group:
  "\<not> endsWith (chat_id c) ''@s.whatsapp.net'' \<Longrightarrow> endsWith (chat_id c) ''@g.us'' \<Longrightarrow>
   chat_display_name s c = js_or (chat_name c) (js_or (chat_subject c) ''Group'')"
  by (auto simp: chat_display_name_def Let_def js_or_def split: option.splits)

lemma display_name_other:
  "\<not> endsWith (chat_id c) ''@s.whatsapp.net'' \<Longrightarrow> \<not> endsWith (chat_id c) ''@g.us'' \<Longrightarrow>
   chat_display_name s c = js_or (chat_name c) (formatPhoneNumber (chat_id c))"
  by (auto simp: chat_display_name_def Let_def js_or_def split: option.splits)

lemma listed_name:
  "e \<in> set (list_chats eng tf s) \<Longrightarrow>
   \<exists>k. k \<in> set (map snd (chats s)) \<and> c_jid e = chat_id k \<and> c_name e = chat_display_name s k"
  using list_chats_entry[of e eng tf s] format_chat_jid by blast

text \<open>
  Claim C7, as amended. Every entry of the chat list carries the name
  \<open>chat_display_name\<close> of its chat record, which depends on the kind of the id. For a
  private conversation (id ending in \<^verbatim>\<open>@s.whatsapp.net\<close>) it is the precedence of the
  specification: the record's name hint, else the contact's name, else the contact's
  notify alias, else the part of the id before the \<^verbatim>\<open>@\<close>. For a group (id ending in
  \<^verbatim>\<open>@g.us\<close>) it is the hint, else the record's subject, else the word \<^verbatim>\<open>Group\<close>. For
  any other id it is the hint, else the part of the id before the \<^verbatim>\<open>@\<close>; contacts are
  not looked up. So a private conversation with no hint and a contact that has only the
  notify alias \<^verbatim>\<open>Bob\<close> is named \<^verbatim>\<open>Bob\<close>, and \<^verbatim>\<open>12345@domain\<close> with no hint is named \<^verbatim>\<open>12345\<close>.
\<close>

theorem display_name_by_kind:
  "(endsWith (chat_id c) ''@s.whatsapp.net'' \<longrightarrow>
      chat_display_name s c = spec_display_name s c)
   \<and> (\<not> endsWith (chat_id c) ''@s.whatsapp.net'' \<and> endsWith (chat_id c) ''@g.us'' \<longrightarrow>
        chat_display_name s c = js_or (chat_name c) (js_or (chat_subject c) ''Group''))
   \<and> (\<not> endsWith (chat_id c) ''@s.whatsapp.net'' \<and> \<not> endsWith (chat_id c) ''@g.us'' \<longrightarrow>
        chat_display_name s c = js_or (chat_name c) (formatPhoneNumber (chat_id c)))
   \<and> (e \<in> set (list_chats eng tf s) \<longrightarrow>
        (\<exists>k. k \<in> set (map snd (chats s)) \<and> c_jid e = chat_id k
              \<and> c_name e = chat_display_name s k))
   \<and> (endsWith (chat_id c) ''@s.whatsapp.net'' \<and> js_or (chat_name c) [] = []
        \<and> map_of (contacts s) (chat_id c) = Some k \<and> js_or (contact_name k) [] = []
        \<and> contact_notify k = Some ''Bob'' \<longrightarrow>
        chat_display_name s c = ''Bob'')
   \<and> (chat_id c = ''12345@domain'' \<and> js_or (chat_name c) [] = [] \<longrightarrow>
        chat_display_name s c = ''12345'')"
proof (intro conjI impI)
  assume "endsWith (chat_id c) ''@s.whatsapp.net''"
  then show "chat_display_name s c = spec_display_name s c" by (rule display_name_private)
next
  assume "\<not> endsWith (chat_id c) ''@s.whatsapp.net'' \<and> endsWith (chat_id c) ''@g.us''"
  then show "chat_display_name s c = js_or (chat_name c) (js_or (chat_subject c) ''Group'')"
    by (simp add: display_name_group)
next
  assume "\<not> endsWith (chat_id c) ''@s.whatsapp.net'' \<and> \<not> endsWith (chat_id c) ''@g.us''"
  then show "chat_display_name s c = js_or (chat_name c) (formatPhoneNumber (chat_id c))"
    by (simp add: display_name_other)
next
  assume "e \<in> set (list_chats eng tf s)"
  then show "\<exists>k. k \<in> set (map snd (chats s)) \<and> c_jid e = chat_id k
              \<and> c_name e = chat_display_name s k"
    by (rule listed_name)
next
  assume a: "endsWith (chat_id c) ''@s.whatsapp.net'' \<and> js_or (chat_name c) [] = []
        \<and> map_of (contacts s) (chat_id c) = Some k \<and> js_or (contact_name k) [] = []
        \<and> contact_notify k = Some ''Bob''"
  then have "chat_display_name s c = spec_display_name s c" by (simp add: display_name_private)
  also have "\<dots> = ''Bob''"
    using a by (simp add: spec_display_name_def contact_label_def js_or_no_hint) (simp add: js_or_def)
  finally show "chat_display_name s c = ''Bob''" .
next
  assume a: "chat_id c = ''12345@domain'' \<and> js_or (chat_name c) [] = []"
  have "\<not> endsWith ''12345@domain'' ''@s.whatsapp.net'' \<and> \<not> endsWith ''12345@domain'' ''@g.us''"
    by (simp add: endsWith_def)
  then have "chat_display_name s c = js_or (chat_name c) (formatPhoneNumber (chat_id c))"
    using a by (simp add: display_name_other)
  also have "\<dots> = ''12345''"
    using a by (simp add: js_or_no_hint formatPhoneNumber_def)
  finally show "chat_display_name s c = ''12345''" .
qed

theorem display_name_by_kind_witness:
  "map snd (chats sample_notify_store) =
     [\<lparr>chat_id = alice, chat_name = None, chat_subject = None,
       conversationTimestamp = Some 1700002840, unreadCount = Some 1\<rparr>]
   \<and> map_of (contacts sample_notify_store) alice =
       Some \<lparr>contact_id = alice, contact_name = None, contact_notify = Some ''Bob''\<rparr>
   \<and> map c_name (list_chats [] hhmm sample_notify_store) = [''Bob'']
   \<and> chat_display_name sample_notify_store
        \<lparr>chat_id = alice, chat_name = None, chat_subject = None,
         conversationTimestamp = Some 1700002840, unreadCount = Some 1\<rparr> = ''Bob''
   \<and> chat_display_name empty_store sample_other_chat = ''12345''
   \<and> chat_display_name sample_group_store
        \<lparr>chat_id = group_jid, chat_name = None, chat_subject = None,
         conversationTimestamp = Some 1700010000, unreadCount = Some 1\<rparr>
       = js_or None (js_or None ''Group'')
   \<and> chat_display_name empty_store sample_other_chat
       = js_or (chat_name sample_other_chat) (formatPhoneNumber (chat_id sample_other_chat))"
proof -
  let ?c = "\<lparr>chat_id = alice, chat_name = None, chat_subject = None,
             conversationTimestamp = Some 1700002840, unreadCount = Some (1::int)\<rparr>"
  let ?k = "\<lparr>contact_id = alice, contact_name = None, contact_notify = Some ''Bob''\<rparr>"
  let ?g = "\<lparr>chat_id = group_jid, chat_name = None, chat_subject = None,
             conversationTimestamp = Some 1700010000, unreadCount = Some (1::int)\<rparr>"
  let ?e = "\<lparr>c_jid = alice, c_name = ''Bob'', c_lastMessage = ''see you tomorrow'',
             c_time = ''23:00'', c_unread = 1\<rparr>"
  note at_private = display_name_by_kind[of ?c sample_notify_store ?e "[]" hhmm ?k]
  note at_group = display_name_by_kind[of ?g sample_group_store ?e "[]" hhmm ?k]
  note at_other = display_name_by_kind[of sample_other_chat empty_store ?e "[]" hhmm ?k]
  have h1: "endsWith (chat_id ?c) ''@s.whatsapp.net'' \<and> js_or (chat_name ?c) [] = []
            \<and> map_of (contacts sample_notify_store) (chat_id ?c) = Some ?k
            \<and> js_or (contact_name ?k) [] = [] \<and> contact_notify ?k = Some ''Bob''"
    by code_simp
  have h2: "\<not> endsWith (chat_id ?g) ''@s.whatsapp.net'' \<and> endsWith (chat_id ?g) ''@g.us''"
    by code_simp
  have h3: "\<not> endsWith (chat_id sample_other_chat) ''@s.whatsapp.net''
            \<and> \<not> endsWith (chat_id sample_other_chat) ''@g.us''
            \<and> chat_id sample_other_chat = ''12345@domain''
            \<and> js_or (chat_name sample_other_chat) [] = []"
    by code_simp
  have h4: "?e \<in> set (list_chats [] hhmm sample_notify_store)"
    by code_simp
  have v: "map snd (chats sample_notify_store) = [?c]
           \<and> map_of (contacts sample_notify_store) alice = Some ?k
           \<and> map c_name (list_chats [] hhmm sample_notify_store) = [''Bob'']
           \<and> chat_name ?g = None \<and> chat_subject ?g = None"
    by code_simp
  from at_private h1 have c1: "chat_display_name sample_notify_store ?c = ''Bob''"
    by blast
  from at_other h3 have c2: "chat_display_name empty_store sample_other_chat = ''12345''"
    by blast
  from at_group h2
  have c3: "chat_display_name sample_group_store ?g
            = js_or (chat_name ?g) (js_or (chat_subject ?g) ''Group'')"
    by blast
  from v have v4: "chat_name ?g = None" and v5: "chat_subject ?g = None"
    by blast+
  from c3 have c3': "chat_display_name sample_group_store ?g = js_or None (js_or None ''Group'')"
    by (simp only: v4 v5)
  from at_other h3
  have c4: "chat_display_name empty_store sample_other_chat
            = js_or (chat_name sample_other_chat) (formatPhoneNumber (chat_id sample_other_chat))"
    by blast
  from at_private h4
  have c5: "\<exists>k. k \<in> set (map snd (chats sample_notify_store)) \<and> c_jid ?e = chat_id k
              \<and> c_name ?e = chat_display_name sample_notify_store k"
    by blast
  from v c1 c2 c3' c4 show ?thesis by blast
qed

text \<open>
  The claim as stated fails: a group that the store knows from an inbound message, with
  no hint and no contact, is listed as \<^verbatim>\<open>Group\<close>, not as the part of its id before
  the \<^verbatim>\<open>@\<close>.
\<close>

theorem group_chat_is_named_Group:
  "map snd (chats sample_group_store) =
     [\<lparr>chat_id = group_jid, chat_name = None, chat_subject = None,
       conversationTimestamp = Some 1700010000, unreadCount = Some 1\<rparr>]
   \<and> contacts sample_group_store = []
   \<and> map c_name (list_chats [] hhmm sample_group_store) = [''Group'']
   \<and> map (spec_display_name sample_group_store) (map snd (chats sample_group_store))
       = [''120363021234567890'']
   \<and> map c_name (list_chats [] hhmm sample_group_store)
       \<noteq> map (spec_display_name sample_group_store) (map snd (chats sample_group_store))"
  by code_simp

section \<open>Creating and reconnecting sessions\<close>

lemma status_after_create:
  "map_of (sessionStatus (createWhatsAppClient sid Created st)) sid = Some ''connecting''"
  by (simp add: create_Created update_conv')

lemma client_after_create:
  "client (createWhatsAppClient sid Created st) sid = Some (length (socks st))"
  by (simp add: create_Created client_def update_conv')

text \<open>
  Claim C9. When a handle is registered for the session id, \<^verbatim>\<open>generateQR\<close> answers with
  the session's current status and leaves the whole state as it is, so no second
  Protocol Client is constructed; a second call in succession gives the same answer.
  Starting without a handle, the first call constructs the client and the second one
  answers with the status \<^verbatim>\<open>connecting\<close> and constructs nothing.
\<close>

theorem generateQR_reuses_client:
  "(client st sid \<noteq> None \<longrightarrow>
      generateQR sid oc st = (st, R_status (map_of (sessionStatus st) sid))
      \<and> generateQR sid oc' (fst (generateQR sid oc st))
          = (st, R_status (map_of (sessionStatus st) sid)))
   \<and> (client st sid = None \<longrightarrow>
        generateQR sid Created st = (createWhatsAppClient sid Created st, R_success)
        \<and> generateQR sid oc' (fst (generateQR sid Created st))
            = (fst (generateQR sid Created st), R_status (Some ''connecting''))
        \<and> length (socks (fst (generateQR sid oc' (fst (generateQR sid Created st)))))
            = Suc (length (socks st)))"
proof (intro conjI impI)
  assume a: "client st sid \<noteq> None"
  then show 1: "generateQR sid oc st = (st, R_status (map_of (sessionStatus st) sid))"
    by (simp add: generateQR_def)
  show "generateQR sid oc' (fst (generateQR sid oc st))
          = (st, R_status (map_of (sessionStatus st) sid))"
    using a by (simp add: 1) (simp add: generateQR_def)
next
  assume a: "client st sid = None"
  then show 1: "generateQR sid Created st = (createWhatsAppClient sid Created st, R_success)"
    by (simp add: generateQR_def)
  show 2: "generateQR sid oc' (fst (generateQR sid Created st))
            = (fst (generateQR sid Created st), R_status (Some ''connecting''))"
    by (simp add: 1) (simp add: generateQR_def client_after_create status_after_create)
  show "length (socks (fst (generateQR sid oc' (fst (generateQR sid Created st)))))
            = Suc (length (socks st))"
    by (simp add: 2) (simp add: 1 create_Created)
qed

theorem generateQR_reuses_client_witness:
  "client sample_reconnecting ''s1'' = Some 0
   \<and> generateQR ''s1'' Created sample_reconnecting
       = (sample_reconnecting, R_status (map_of (sessionStatus sample_reconnecting) ''s1''))
   \<and> generateQR ''s1'' Created (fst (generateQR ''s1'' Created sample_reconnecting))
       = (sample_reconnecting, R_status (map_of (sessionStatus sample_reconnecting) ''s1''))
   \<and> map_of (sessionStatus sample_reconnecting) ''s1'' = Some ''reconnecting''
   \<and> client initial ''s1'' = None
   \<and> generateQR ''s1'' Created initial = (createWhatsAppClient ''s1'' Created initial, R_success)
   \<and> generateQR ''s1'' Created (fst (generateQR ''s1'' Created initial))
       = (fst (generateQR ''s1'' Created initial), R_status (Some ''connecting''))
   \<and> length (socks (fst (generateQR ''s1'' Created (fst (generateQR ''s1'' Created initial)))))
       = Suc (length (socks initial))"
proof -
  note live = generateQR_reuses_client[of sample_reconnecting "''s1''" Created Created]
  note fresh = generateQR_reuses_client[of initial "''s1''" Created Created]
  have h1: "client sample_reconnecting ''s1'' \<noteq> None"
    by code_simp
  have h2: "client initial ''s1'' = None"
    by code_simp
  have v: "client sample_reconnecting ''s1'' = Some 0
           \<and> map_of (sessionStatus sample_reconnecting) ''s1'' = Some ''reconnecting''"
    by code_simp
  from live h1
  have c1: "generateQR ''s1'' Created sample_reconnecting
       = (sample_reconnecting, R_status (map_of (sessionStatus sample_reconnecting) ''s1''))
     \<and> generateQR ''s1'' Created (fst (generateQR ''s1'' Created sample_reconnecting))
       = (sample_reconnecting, R_status (map_of (sessionStatus sample_reconnecting) ''s1''))"
    by blast
  from fresh h2
  have c2: "generateQR ''s1'' Created initial = (createWhatsAppClient ''s1'' Created initial, R_success)
     \<and> generateQR ''s1'' Created (fst (generateQR ''s1'' Created initial))
         = (fst (generateQR ''s1'' Created initial), R_status (Some ''connecting''))
     \<and> length (socks (fst (generateQR ''s1'' Created (fst (generateQR ''s1'' Created initial)))))
         = Suc (length (socks initial))"
    by blast
  from v h2 c1 c2 show ?thesis by blast
qed

text \<open>
  Claim C8. \<^verbatim>\<open>reconnectSession\<close> for a session id whose folder is missing or empty
  answers \<^verbatim>\<open>{ error: 'Session does not exist' }\<close> and leaves the whole state as it is
  (no Protocol Client constructed, registry unchanged), whether or not a handle is
  registered; when the folder holds files, a client is constructed.
\<close>

theorem reconnect_needs_stored_credentials:
  "(\<not> sessionExists st sid \<longrightarrow>
      reconnectSession sid oc st = (st, R_error ''Session does not exist''))
   \<and> (sessionExists st sid \<longrightarrow>
        snd (reconnectSession sid oc st) = R_success
        \<and> socks (fst (reconnectSession sid Created st))
            = socks st @ [\<lparr>sock_session = sid, sock_store = empty_store\<rparr>]
        \<and> client (fst (reconnectSession sid Created st)) sid = Some (length (socks st)))"
proof (intro conjI impI)
  assume "\<not> sessionExists st sid"
  then show "reconnectSession sid oc st = (st, R_error ''Session does not exist'')"
    by (simp add: reconnectSession_def)
next
  assume a: "sessionExists st sid"
  then show "snd (reconnectSession sid oc st) = R_success"
    by (simp add: reconnectSession_def)
  show "socks (fst (reconnectSession sid Created st))
            = socks st @ [\<lparr>sock_session = sid, sock_store = empty_store\<rparr>]"
    using a by (simp add: reconnectSession_def create_Created socks_delete_client)
  show "client (fst (reconnectSession sid Created st)) sid = Some (length (socks st))"
    using a by (simp add: reconnectSession_def client_after_create socks_delete_client)
qed

theorem reconnect_needs_stored_credentials_witness:
  "client sample_created ''s1'' = Some 0
   \<and> map_of (folders sample_created) ''s1'' = Some []
   \<and> \<not> sessionExists sample_created ''s1''
   \<and> reconnectSession ''s1'' Created sample_created
       = (sample_created, R_error ''Session does not exist'')
   \<and> \<not> sessionExists initial ''s2''
   \<and> reconnectSession ''s2'' Created initial = (initial, R_error ''Session does not exist'')
   \<and> sessionExists sample_connected ''s1''
   \<and> snd (reconnectSession ''s1'' Created sample_connected) = R_success
   \<and> client (fst (reconnectSession ''s1'' Created sample_connected)) ''s1''
       = Some (length (socks sample_connected))"
proof -
  note registered = reconnect_needs_stored_credentials[of sample_created "''s1''" Created]
  note unknown = reconnect_needs_stored_credentials[of initial "''s2''" Created]
  note stored = reconnect_needs_stored_credentials[of sample_connected "''s1''" Created]
  have h1: "\<not> sessionExists sample_created ''s1''"
    by code_simp
  have h2: "\<not> sessionExists initial ''s2''"
    by code_simp
  have h3: "sessionExists sample_connected ''s1''"
    by code_simp
  have v: "client sample_created ''s1'' = Some 0
           \<and> map_of (folders sample_created) ''s1'' = Some []"
    by code_simp
  from registered h1
  have c1: "reconnectSession ''s1'' Created sample_created
            = (sample_created, R_error ''Session does not exist'')"
    by blast
  from unknown h2
  have c2: "reconnectSession ''s2'' Created initial = (initial, R_error ''Session does not exist'')"
    by blast
  from stored h3
  have c3: "snd (reconnectSession ''s1'' Created sample_connected) = R_success
            \<and> client (fst (reconnectSession ''s1'' Created sample_connected)) ''s1''
                = Some (length (socks sample_connected))"
    by blast
  from v h1 h2 h3 c1 c2 c3 show ?thesis by blast
qed

end
